theory Spec2Isabelle
  imports Main "HOL-Library.AList" "HOL-Library.Sublist"
begin

section \<open>The message-sequence tracker\<close>

text \<open>
  \<^verbatim>\<open>const msgSeqTracker = new Map<string, number>();\<close>

  A JavaScript \<open>Map\<close> iterates its keys in insertion order, and the eviction of
  \<open>getNextMsgSeq\<close> depends on that order, so the tracker is an association list in
  insertion order. The operations of \<open>Map\<close> the code uses are
  \<^item> \<open>get\<close>: \<^const>\<open>map_of\<close> (\<open>None\<close> is \<open>undefined\<close>);
  \<^item> \<open>set\<close>: \<^const>\<open>AList.update\<close>, which overwrites the value of a key in place
    and appends a new key at the end, as \<open>Map.prototype.set\<close> does;
  \<^item> \<open>delete\<close>: \<^const>\<open>AList.delete\<close>;
  \<^item> \<open>size\<close>: \<^const>\<open>length\<close>; \<open>keys()\<close>: \<open>map fst\<close>.
  The keys of a \<open>Map\<close> are distinct; every operation below keeps them so.
  The counters are JavaScript numbers that only ever hold the integers \<open>0, 1, 2, \<dots>\<close>;
  they are natural numbers here (a double holds them exactly up to \<open>2 ^ 53\<close>).
\<close>

type_synonym tracker = "(string \<times> nat) list"

abbreviation Map_get :: "('k \<times> 'v) list \<Rightarrow> 'k \<Rightarrow> 'v option" where
  "Map_get m k \<equiv> map_of m k"

abbreviation Map_set :: "('k \<times> 'v) list \<Rightarrow> 'k \<Rightarrow> 'v \<Rightarrow> ('k \<times> 'v) list" where
  "Map_set m k v \<equiv> AList.update k v m"

abbreviation Map_delete :: "('k \<times> 'v) list \<Rightarrow> 'k \<Rightarrow> ('k \<times> 'v) list" where
  "Map_delete m k \<equiv> AList.delete k m"

abbreviation Map_size :: "('k \<times> 'v) list \<Rightarrow> nat" where
  "Map_size m \<equiv> length m"

abbreviation Map_keys :: "('k \<times> 'v) list \<Rightarrow> 'k list" where
  "Map_keys m \<equiv> map fst m"

text \<open>
  An array read \<open>keys[i]\<close>: \<open>undefined\<close> (here \<open>None\<close>) when \<open>i\<close> is out of range.
\<close>

definition js_index :: "'a list \<Rightarrow> nat \<Rightarrow> 'a option" where
  "js_index xs i = (if i < length xs then Some (xs ! i) else None)"

text \<open>
  \<^verbatim>\<open>for (let i = 0; i < 500; i++) { msgSeqTracker.delete(keys[i]); }\<close>

  The loop from a given \<open>i\<close>. Deleting \<open>undefined\<close> removes nothing, since no key of
  the tracker is \<open>undefined\<close>.
\<close>

function evict_loop :: "nat \<Rightarrow> string list \<Rightarrow> tracker \<Rightarrow> tracker" where
  "evict_loop i keys t =
     (if i < 500
      then evict_loop (i + 1) keys
             (case js_index keys i of Some k \<Rightarrow> Map_delete t k | None \<Rightarrow> t)
      else t)"
  by pat_completeness auto
termination
  by (relation "measure (\<lambda>(i, keys, t). 500 - i)") auto

declare evict_loop.simps [simp del]

text \<open>
  \<^verbatim>\<open>
  export function getNextMsgSeq(msgId: string): number {
    const current = msgSeqTracker.get(msgId) ?? 0;
    const next = current + 1;
    msgSeqTracker.set(msgId, next);
    if (msgSeqTracker.size > 1000) {
      const keys = Array.from(msgSeqTracker.keys());
      for (let i = 0; i < 500; i++) { msgSeqTracker.delete(keys[i]); }
    }
    return next;
  }
  \<close>
  The function returns the number and the tracker it leaves behind.
\<close>

definition getNextMsgSeq :: "tracker \<Rightarrow> string \<Rightarrow> nat \<times> tracker" where
  "getNextMsgSeq msgSeqTracker msgId =
     (let current = (case Map_get msgSeqTracker msgId of None \<Rightarrow> 0 | Some c \<Rightarrow> c);
          next = current + 1;
          t1 = Map_set msgSeqTracker msgId next;
          t2 = (if Map_size t1 > 1000 then evict_loop 0 (Map_keys t1) t1 else t1)
      in (next, t2))"

text \<open>
  A sequence of calls, one per identifier of the list, in order: the numbers returned and
  the final tracker.
\<close>

fun calls :: "tracker \<Rightarrow> string list \<Rightarrow> nat list \<times> tracker" where
  "calls t [] = ([], t)"
| "calls t (msgId # rest) =
     (case getNextMsgSeq t msgId of (n, t') \<Rightarrow>
        (case calls t' rest of (ns, t'') \<Rightarrow> (n # ns, t'')))"

text \<open>The numbers a sequence of calls returned for one identifier, in call order.\<close>

definition results_for :: "string \<Rightarrow> string list \<Rightarrow> nat list \<Rightarrow> nat list" where
  "results_for msgId ids ns = map snd (filter (\<lambda>p. fst p = msgId) (zip ids ns))"

text \<open>
  What the eviction is described as: drop the oldest 500 entries, then insert the new
  identifier with counter 1.
\<close>

definition evict_then_insert :: "tracker \<Rightarrow> string \<Rightarrow> tracker" where
  "evict_then_insert t msgId = Map_set (drop 500 t) msgId 1"

text \<open>A thousand distinct identifiers \<open>k\<close>, \<open>kk\<close>, \<open>kkk\<close>, \<dots> for the concrete runs.\<close>

definition thousand_ids :: "string list" where
  "thousand_ids = map (\<lambda>n. replicate (Suc n) CHR ''k'') [0..<1000]"

definition thousand_tracker :: tracker where
  "thousand_tracker = map (\<lambda>k. (k, 1)) thousand_ids"

text \<open>What every call keeps: distinct keys, and at most 1000 of them.\<close>

definition tracker_ok :: "tracker \<Rightarrow> bool" where
  "tracker_ok t = (distinct (Map_keys t) \<and> Map_size t \<le> 1000)"

section \<open>JSON values, the network and errors\<close>

text \<open>
  The values that travel as JSON. Numbers are integers here: the code only builds the
  integers \<open>0\<close>, \<open>1\<close>, \<open>7\<close> and the sequence numbers, and reads \<open>expires_in\<close>, a number
  of seconds. The properties of an object have distinct names, as in any JavaScript
  object.
\<close>

datatype json =
    JNull
  | JBool bool
  | JNum int
  | JStr string
  | JArr "json list"
  | JObj "(string \<times> json) list"

text \<open>
  The numbers the arithmetic of the code works on: the integers, and \<open>NaN\<close>, which the
  conversion of a value that is no number can yield. Every operation with \<open>NaN\<close> gives
  \<open>NaN\<close>, every comparison with it is false. The arithmetic is exact; a number with a
  fractional part and the two infinities have no value here.
\<close>

datatype jsnum = Num int | NaN

fun js_plus :: "jsnum \<Rightarrow> jsnum \<Rightarrow> jsnum" where
  "js_plus (Num a) (Num b) = Num (a + b)"
| "js_plus x y = NaN"

fun js_minus :: "jsnum \<Rightarrow> jsnum \<Rightarrow> jsnum" where
  "js_minus (Num a) (Num b) = Num (a - b)"
| "js_minus x y = NaN"

fun js_times :: "jsnum \<Rightarrow> jsnum \<Rightarrow> jsnum" where
  "js_times (Num a) (Num b) = Num (a * b)"
| "js_times x y = NaN"

fun js_less :: "jsnum \<Rightarrow> jsnum \<Rightarrow> bool" where
  "js_less (Num a) (Num b) = (a < b)"
| "js_less x y = False"

text \<open>
  What the code can throw. \<open>Error\<close> is \<^verbatim>\<open>throw new Error(message)\<close>, the only
  throw the code writes; its kinds are told apart by the message only: \<open>Network error \<dots>\<close>,
  \<open>Failed to parse \<dots>\<close>, \<open>Failed to get access_token: \<dots>\<close> and \<open>API Error \<dots>\<close>.
  \<open>TypeError\<close> is the error the runtime itself throws, for the read of a property of
  \<open>null\<close> or for a conversion that fails; the string says what failed (for a property
  read, the name of the property), the wording of the engine's message is not modelled.
\<close>

datatype error = Error string | TypeError string

text \<open>
  A property read \<open>data.name\<close> on a parsed value, for the names the code reads
  (\<open>access_token\<close>, \<open>expires_in\<close>, \<open>message\<close>, \<open>id\<close>): on \<open>null\<close> the read throws a
  \<open>TypeError\<close>; on an object it gives the value of the property, or \<open>undefined\<close> (here
  \<open>None\<close>) when there is none; a boolean, a number, a string and an array have no
  property of these names.
\<close>

fun property :: "json \<Rightarrow> string \<Rightarrow> error + json option" where
  "property JNull name = Inl (TypeError name)"
| "property (JObj props) name = Inr (map_of props name)"
| "property v name = Inr None"

text \<open>The truth value JavaScript gives a value in \<open>if (body)\<close> and in \<open>!data.access_token\<close>.\<close>

fun truthy :: "json \<Rightarrow> bool" where
  "truthy JNull = False"
| "truthy (JBool b) = b"
| "truthy (JNum n) = (n \<noteq> 0)"
| "truthy (JStr s) = (s \<noteq> [])"
| "truthy (JArr xs) = True"
| "truthy (JObj props) = True"

text \<open>\<open>a ?? b\<close>: \<open>b\<close> when \<open>a\<close> is \<open>undefined\<close> or \<open>null\<close>, and \<open>a\<close> otherwise.\<close>

fun nullish_coalesce :: "json option \<Rightarrow> json \<Rightarrow> json" where
  "nullish_coalesce None b = b"
| "nullish_coalesce (Some JNull) b = b"
| "nullish_coalesce (Some a) b = a"

text \<open>
  What a \<open>catch (err)\<close> receives, and the text the code takes from it:
  \<^verbatim>\<open>err instanceof Error ? err.message : String(err)\<close>.
  \<open>ThrownOther\<close> carries the rendering \<open>String(err)\<close> of a value that is not an \<open>Error\<close>.
\<close>

datatype thrown = ThrownError string | ThrownOther string

fun cause_text :: "thrown \<Rightarrow> string" where
  "cause_text (ThrownError message) = message"
| "cause_text (ThrownOther rendered) = rendered"

text \<open>
  One call of \<open>fetch(url, options)\<close>. \<open>body\<close> is the value whose \<open>JSON.stringify\<close>
  text the request carries (\<open>None\<close>: the request has no body).
\<close>

record request =
  target :: string
  http_method :: string
  headers :: "(string \<times> string) list"
  body :: "json option"

text \<open>
  The outcome of \<open>await response.json()\<close>: it throws, or yields the parsed body, which
  can be any JSON value.
\<close>

datatype parsed = Unparseable thrown | Parsed json

record response =
  ok :: bool
  json_result :: parsed

datatype fetch_result = Rejects thrown | Resolves response

text \<open>
  What the code takes from its runtime:
  \<^item> \<open>JSON.stringify\<close>, used for the text of error messages;
  \<^item> \<open>ToString\<close>, the conversion of a template literal \<^verbatim>\<open>${v}\<close>, asked only for an
    array, an object or a number beyond \<open>2 ^ 53\<close> (it can throw: an object whose own
    \<open>toString\<close> is no function has no primitive value);
  \<^item> \<open>ToNumber\<close>, the conversion of an operand of \<open>*\<close>, asked only for a string, an array
    or an object (it can throw for the same reason);
  \<^item> the network behind \<open>fetch\<close>, a function from the request to its outcome.
\<close>

record runtime =
  JSON_stringify :: "json \<Rightarrow> string"
  ToString :: "json \<Rightarrow> error + string"
  ToNumber :: "json \<Rightarrow> error + jsnum"
  fetch :: "request \<Rightarrow> fetch_result"

text \<open>The decimal digits of an integer.\<close>

definition digit :: "nat \<Rightarrow> char" where
  "digit n = ''0123456789'' ! n"

function nat_text :: "nat \<Rightarrow> string" where
  "nat_text n = (if n < 10 then [digit n] else nat_text (n div 10) @ [digit (n mod 10)])"
  by pat_completeness auto
termination
  by (relation "measure id") auto

declare nat_text.simps [simp del]

definition int_text :: "int \<Rightarrow> string" where
  "int_text i = (if i < 0 then CHR ''-'' # nat_text (nat (- i)) else nat_text (nat i))"

text \<open>
  The text of a value in a template literal. A string is itself; an integer up to
  \<open>2 ^ 53\<close> in absolute value is written with its decimal digits; \<open>true\<close>, \<open>false\<close> and
  \<open>null\<close> are written so; for the rest the runtime is asked.
\<close>

fun to_string :: "runtime \<Rightarrow> json \<Rightarrow> error + string" where
  "to_string rt (JStr s) = Inr s"
| "to_string rt (JNum n) =
     (if \<bar>n\<bar> \<le> 9007199254740992 then Inr (int_text n) else ToString rt (JNum n))"
| "to_string rt (JBool b) = Inr (if b then ''true'' else ''false'')"
| "to_string rt JNull = Inr ''null''"
| "to_string rt v = ToString rt v"

text \<open>
  The number an operand of \<open>*\<close> stands for. A number is itself, \<open>true\<close> is 1, \<open>false\<close>
  and \<open>null\<close> are 0; for the rest the runtime is asked.
\<close>

fun to_number :: "runtime \<Rightarrow> json \<Rightarrow> error + jsnum" where
  "to_number rt (JNum n) = Inr (Num n)"
| "to_number rt (JBool b) = Inr (Num (if b then 1 else 0))"
| "to_number rt JNull = Inr (Num 0)"
| "to_number rt v = ToNumber rt v"

definition API_BASE :: string where
  "API_BASE = ''https://api.sgroup.qq.com''"

definition TOKEN_URL :: string where
  "TOKEN_URL = ''https://bots.qq.com/app/getAppAccessToken''"

section \<open>The access-token cache\<close>

text \<open>
  \<^verbatim>\<open>let cachedToken: { token: string; expiresAt: number } | null = null;\<close>

  The cache is a \<open>credential option\<close>, passed in and returned. The token is the value the
  endpoint sent as \<open>access_token\<close>, whatever its type: the code stores it unchecked.
  Times are milliseconds since the epoch, as \<open>Date.now()\<close> returns them.
\<close>

record credential =
  token :: json
  expiresAt :: jsnum

text \<open>
  \<^verbatim>\<open>
  fetch(TOKEN_URL, { method: "POST", headers: { "Content-Type": "application/json" },
                     body: JSON.stringify({ appId, clientSecret }) })
  \<close>
\<close>

definition token_request :: "string \<Rightarrow> string \<Rightarrow> request" where
  "token_request appId clientSecret =
     \<lparr>target = TOKEN_URL, http_method = ''POST'',
      headers = [(''Content-Type'', ''application/json'')],
      body = Some (JObj [(''appId'', JStr appId), (''clientSecret'', JStr clientSecret)])\<rparr>"

text \<open>
  \<^verbatim>\<open>if (cachedToken && Date.now() < cachedToken.expiresAt - 5 * 60 * 1000)\<close>
\<close>

definition cache_fresh :: "int \<Rightarrow> credential option \<Rightarrow> bool" where
  "cache_fresh now cachedToken =
     (case cachedToken of
        None \<Rightarrow> False
      | Some c \<Rightarrow> js_less (Num now) (js_minus (expiresAt c) (Num (5 * 60 * 1000))))"

text \<open>
  The body of \<open>getAccessToken\<close> after the cache check:
  \<^verbatim>\<open>
  let response: Response;
  try { response = await fetch(TOKEN_URL, ...); }
  catch (err) { throw new Error(`Network error getting access_token: ${...}`); }
  let data: { access_token?: string; expires_in?: number };
  try { data = (await response.json()) as ...; }
  catch (err) { throw new Error(`Failed to parse access_token response: ${...}`); }
  if (!data.access_token) {
    throw new Error(`Failed to get access_token: ${JSON.stringify(data)}`);
  }
  cachedToken = { token: data.access_token,
                  expiresAt: Date.now() + (data.expires_in ?? 7200) * 1000 };
  return cachedToken.token;
  \<close>
  The cast of the parsed body checks nothing: the reads \<open>data.access_token\<close> and
  \<open>data.expires_in\<close> are reads on whatever value was parsed, and they are outside the
  \<open>try\<close> blocks. \<open>now_store\<close> is the reading of \<open>Date.now()\<close> when the credential is
  built. The result is what the call returns or throws, the cache it leaves, and the
  requests it made.
\<close>

definition refresh_token ::
  "runtime \<Rightarrow> int \<Rightarrow> credential option \<Rightarrow> string \<Rightarrow> string \<Rightarrow>
   (error + json) \<times> credential option \<times> request list" where
  "refresh_token rt now_store cachedToken appId clientSecret =
     (let req = token_request appId clientSecret in
      case fetch rt req of
        Rejects err \<Rightarrow>
          (Inl (Error (''Network error getting access_token: '' @ cause_text err)),
           cachedToken, [req])
      | Resolves response \<Rightarrow>
          (case json_result response of
             Unparseable err \<Rightarrow>
               (Inl (Error (''Failed to parse access_token response: '' @ cause_text err)),
                cachedToken, [req])
           | Parsed data \<Rightarrow>
               (case property data ''access_token'' of
                  Inl e \<Rightarrow> (Inl e, cachedToken, [req])
                | Inr None \<Rightarrow>
                    (Inl (Error (''Failed to get access_token: '' @ JSON_stringify rt data)),
                     cachedToken, [req])
                | Inr (Some access_token) \<Rightarrow>
                    if \<not> truthy access_token
                    then (Inl (Error (''Failed to get access_token: '' @ JSON_stringify rt data)),
                          cachedToken, [req])
                    else
                      (case property data ''expires_in'' of
                         Inl e \<Rightarrow> (Inl e, cachedToken, [req])
                       | Inr expires_in \<Rightarrow>
                           (case to_number rt (nullish_coalesce expires_in (JNum 7200)) of
                              Inl e \<Rightarrow> (Inl e, cachedToken, [req])
                            | Inr lifetime \<Rightarrow>
                                (Inr access_token,
                                 Some \<lparr>token = access_token,
                                       expiresAt = js_plus (Num now_store)
                                                     (js_times lifetime (Num 1000))\<rparr>,
                                 [req]))))))"

text \<open>
  \<^verbatim>\<open>
  export async function getAccessToken(appId: string, clientSecret: string): Promise<string> {
    if (cachedToken && Date.now() < cachedToken.expiresAt - 5 * 60 * 1000) {
      return cachedToken.token;
    }
    ...
  \<close>
  \<open>now_check\<close> is the reading of \<open>Date.now()\<close> in the cache check.
\<close>

definition getAccessToken ::
  "runtime \<Rightarrow> int \<Rightarrow> int \<Rightarrow> credential option \<Rightarrow> string \<Rightarrow> string \<Rightarrow>
   (error + json) \<times> credential option \<times> request list" where
  "getAccessToken rt now_check now_store cachedToken appId clientSecret =
     (case cachedToken of
        None \<Rightarrow> refresh_token rt now_store cachedToken appId clientSecret
      | Some c \<Rightarrow>
          if js_less (Num now_check) (js_minus (expiresAt c) (Num (5 * 60 * 1000)))
          then (Inr (token c), cachedToken, [])
          else refresh_token rt now_store cachedToken appId clientSecret)"

text \<open>\<^verbatim>\<open>export function clearTokenCache(): void { cachedToken = null; }\<close>\<close>

definition clearTokenCache :: "credential option \<Rightarrow> credential option" where
  "clearTokenCache cachedToken = None"

section \<open>The request wrapper\<close>

text \<open>
  \<^verbatim>\<open>
  export async function apiRequest<T = unknown>(accessToken, method, path, body?): Promise<T> {
    const url = `${API_BASE}${path}`;
    const options: RequestInit = { method, headers: {
        Authorization: `QQBot ${accessToken}`, "Content-Type": "application/json" } };
    if (body) { options.body = JSON.stringify(body); }
  \<close>
\<close>

definition api_request :: "string \<Rightarrow> string \<Rightarrow> string \<Rightarrow> json option \<Rightarrow> request" where
  "api_request accessToken meth path payload =
     \<lparr>target = API_BASE @ path, http_method = meth,
      headers = [(''Authorization'', ''QQBot '' @ accessToken),
                 (''Content-Type'', ''application/json'')],
      body = (case payload of
                None \<Rightarrow> None
              | Some b \<Rightarrow> if truthy b then Some b else None)\<rparr>"

text \<open>
  \<^verbatim>\<open>
    let res: Response;
    try { res = await fetch(url, options); }
    catch (err) { throw new Error(`Network error [${path}]: ${...}`); }
    let data: T;
    try { data = (await res.json()) as T; }
    catch (err) { throw new Error(`Failed to parse response [${path}]: ${...}`); }
    if (!res.ok) {
      const error = data as { message?: string; code?: number };
      throw new Error(`API Error [${path}]: ${error.message ?? JSON.stringify(data)}`);
    }
    return data;
  }
  \<close>
  The read \<open>error.message\<close> and the conversion of its value to text happen while the
  message is built, so what they throw is thrown in place of the \<open>Error\<close>. The result
  is what the call returns or throws, and the requests it made.
\<close>

definition apiRequest ::
  "runtime \<Rightarrow> string \<Rightarrow> string \<Rightarrow> string \<Rightarrow> json option \<Rightarrow>
   (error + json) \<times> request list" where
  "apiRequest rt accessToken meth path payload =
     (let req = api_request accessToken meth path payload in
      case fetch rt req of
        Rejects err \<Rightarrow>
          (Inl (Error (''Network error ['' @ path @ '']: '' @ cause_text err)), [req])
      | Resolves res \<Rightarrow>
          (case json_result res of
             Unparseable err \<Rightarrow>
               (Inl (Error (''Failed to parse response ['' @ path @ '']: '' @ cause_text err)),
                [req])
           | Parsed data \<Rightarrow>
               if \<not> ok res
               then (case property data ''message'' of
                       Inl e \<Rightarrow> (Inl e, [req])
                     | Inr message \<Rightarrow>
                         (case to_string rt
                                 (nullish_coalesce message (JStr (JSON_stringify rt data))) of
                            Inl e \<Rightarrow> (Inl e, [req])
                          | Inr text \<Rightarrow>
                              (Inl (Error (''API Error ['' @ path @ '']: '' @ text)), [req])))
               else (Inr data, [req])))"

section \<open>Sending text\<close>


text \<open>\<^verbatim>\<open>...(msgId ? { msg_id: msgId } : {})\<close>: the properties the spread adds.\<close>

definition spread_msg_id :: "string option \<Rightarrow> (string \<times> json) list" where
  "spread_msg_id msgId =
     (case msgId of
        None \<Rightarrow> []
      | Some v \<Rightarrow> if v \<noteq> [] then [(''msg_id'', JStr v)] else [])"



text \<open>
  \<^verbatim>\<open>
  export async function sendChannelMessage(accessToken, channelId, content, msgId?) {
    return apiRequest(accessToken, "POST", `/channels/${channelId}/messages`, {
      content, ...(msgId ? { msg_id: msgId } : {}),
    });
  }
  \<close>
\<close>

definition sendChannelMessage ::
  "runtime \<Rightarrow> string \<Rightarrow> string \<Rightarrow> string \<Rightarrow> string option \<Rightarrow>
   (error + json) \<times> request list" where
  "sendChannelMessage rt accessToken channelId content msgId =
     apiRequest rt accessToken ''POST'' (''/channels/'' @ channelId @ ''/messages'')
       (Some (JObj ([(''content'', JStr content)] @ spread_msg_id msgId)))"


section \<open>Image upload\<close>

text \<open>
  \<open>imageData.split(",")\<close>: the pieces of the string between its commas; a string with
  no comma is its own single piece.
\<close>

fun split_comma :: "string \<Rightarrow> string list" where
  "split_comma [] = [[]]"
| "split_comma (c # cs) =
     (if c = CHR '','' then [] # split_comma cs
      else (case split_comma cs of
              [] \<Rightarrow> [[c]]
            | piece # pieces \<Rightarrow> (c # piece) # pieces))"

text \<open>\<^verbatim>\<open>let payload: { url?: string; file_data?: string };\<close>\<close>

record upload_payload =
  url :: "string option"
  file_data :: "string option"

text \<open>
  \<^verbatim>\<open>
  if (imageData.startsWith("http")) { payload = { url: imageData }; }
  else if (imageData.startsWith("data:")) { payload = { file_data: imageData.split(",")[1] }; }
  else { payload = { file_data: imageData }; }
  \<close>
\<close>

definition upload_payload_of :: "string \<Rightarrow> upload_payload" where
  "upload_payload_of imageData =
     (if prefix ''http'' imageData then \<lparr>url = Some imageData, file_data = None\<rparr>
      else if prefix ''data:'' imageData
      then \<lparr>url = None, file_data = js_index (split_comma imageData) 1\<rparr>
      else \<lparr>url = None, file_data = Some imageData\<rparr>)"

text \<open>
  The object \<open>JSON.stringify\<close> writes for a payload: a property whose value is
  \<open>undefined\<close> is left out.
\<close>

definition payload_json :: "upload_payload \<Rightarrow> json" where
  "payload_json p =
     JObj ((case url p of None \<Rightarrow> [] | Some u \<Rightarrow> [(''url'', JStr u)]) @
           (case file_data p of None \<Rightarrow> [] | Some d \<Rightarrow> [(''file_data'', JStr d)]))"

text \<open>
  \<^verbatim>\<open>
  export async function uploadImage(accessToken: string, imageData: string): Promise<string> {
    ...
    const data = await apiRequest<{ id: string }>(accessToken, "POST", "/v2/assets", payload);
    return data.id;
  }
  \<close>
  The call returns whatever \<open>data.id\<close> is: \<open>undefined\<close> (here \<open>None\<close>) when the body has
  no such property.
\<close>

definition uploadImage ::
  "runtime \<Rightarrow> string \<Rightarrow> string \<Rightarrow> (error + json option) \<times> request list" where
  "uploadImage rt accessToken imageData =
     (case apiRequest rt accessToken ''POST'' ''/v2/assets''
             (Some (payload_json (upload_payload_of imageData))) of
        (Inl e, trace) \<Rightarrow> (Inl e, trace)
      | (Inr data, trace) \<Rightarrow> (property data ''id'', trace))"

text \<open>
  What the description of \<open>uploadImage\<close> says of a data URI: everything up to and
  including the first comma is stripped.
\<close>

definition after_first_comma :: "string \<Rightarrow> string" where
  "after_first_comma s = drop 1 (dropWhile (\<lambda>c. c \<noteq> CHR '','') s)"

section \<open>Runtimes for the concrete runs\<close>

text \<open>
  A serializer for the concrete runs: the JSON text of a value, with the quote and the
  backslash of a string escaped.
\<close>

definition quoted :: "string \<Rightarrow> string" where
  "quoted s =
     CHR 0x22 #
     concat (map (\<lambda>c. if c = CHR 0x22 \<or> c = CHR 0x5C then [CHR 0x5C, c] else [c]) s) @
     [CHR 0x22]"

fun separated :: "string list \<Rightarrow> string" where
  "separated [] = []"
| "separated [x] = x"
| "separated (x # y # zs) = x @ CHR '','' # separated (y # zs)"

fun json_text :: "json \<Rightarrow> string" where
  "json_text JNull = ''null''"
| "json_text (JBool b) = (if b then ''true'' else ''false'')"
| "json_text (JNum n) = int_text n"
| "json_text (JStr s) = quoted s"
| "json_text (JArr xs) = CHR ''['' # separated (map json_text xs) @ '']''"
| "json_text (JObj props) =
     CHR ''{'' # separated (map (\<lambda>(k, v). quoted k @ CHR '':'' # json_text v) props) @ ''}''"

text \<open>
  The runtime in which every request has the given outcome. Of the conversions, the runs
  use two: \<open>String\<close> of a plain object is \<open>[object Object]\<close>, and \<open>Number("100")\<close> is 100;
  a string that is no numeral converts to \<open>NaN\<close>.
\<close>

definition answering :: "fetch_result \<Rightarrow> runtime" where
  "answering outcome =
     \<lparr>JSON_stringify = json_text,
      ToString = (\<lambda>v. Inr ''[object Object]''),
      ToNumber = (\<lambda>v. if v = JStr ''100'' then Inr (Num 100) else Inr NaN),
      fetch = (\<lambda>req. outcome)\<rparr>"

text \<open>The token endpoint answers \<open>{"access_token": "T1", "expires_in": 100}\<close>.\<close>

definition token_endpoint_T1 :: runtime where
  "token_endpoint_T1 =
     answering (Resolves \<lparr>ok = True,
       json_result = Parsed (JObj [(''access_token'', JStr ''T1''), (''expires_in'', JNum 100)])\<rparr>)"

text \<open>The token endpoint answers \<open>{"access_token": "T2"}\<close>, with no lifetime.\<close>

definition token_endpoint_T2 :: runtime where
  "token_endpoint_T2 =
     answering (Resolves \<lparr>ok = True,
       json_result = Parsed (JObj [(''access_token'', JStr ''T2'')])\<rparr>)"

text \<open>
  The token endpoint answers \<open>{"code": 100016, "message": "invalid appid"}\<close>, a body
  with no token.
\<close>

definition token_endpoint_denied :: runtime where
  "token_endpoint_denied =
     answering (Resolves \<lparr>ok = True,
       json_result = Parsed (JObj [(''code'', JNum 100016),
                                   (''message'', JStr ''invalid appid'')])\<rparr>)"

text \<open>
  The token endpoint answers \<open>{"access_token": 12345, "expires_in": "100"}\<close>: a number
  for the token and a string for the lifetime.
\<close>

definition token_endpoint_untyped :: runtime where
  "token_endpoint_untyped =
     answering (Resolves \<lparr>ok = True,
       json_result = Parsed (JObj [(''access_token'', JNum 12345),
                                   (''expires_in'', JStr ''100'')])\<rparr>)"

text \<open>The token endpoint answers \<open>{"access_token": ""}\<close>, an empty token.\<close>

definition token_endpoint_empty :: runtime where
  "token_endpoint_empty =
     answering (Resolves \<lparr>ok = True,
       json_result = Parsed (JObj [(''access_token'', JStr [])])\<rparr>)"

text \<open>The network is down: \<open>fetch\<close> rejects with \<open>new TypeError("fetch failed")\<close>.\<close>

definition network_down :: runtime where
  "network_down = answering (Rejects (ThrownError ''fetch failed''))"

text \<open>
  Every request is answered with status 502 and a body that is no JSON: \<open>json()\<close> throws
  \<open>new SyntaxError("Unexpected token <")\<close>.
\<close>

definition html_endpoint :: runtime where
  "html_endpoint =
     answering (Resolves \<lparr>ok = False,
       json_result = Unparseable (ThrownError ''Unexpected token <'')\<rparr>)"

text \<open>Every request is answered with a success status and the body \<open>null\<close>.\<close>

definition null_endpoint :: runtime where
  "null_endpoint = answering (Resolves \<lparr>ok = True, json_result = Parsed JNull\<rparr>)"

text \<open>Every request is answered with status 500 and the body \<open>null\<close>.\<close>

definition null_error_endpoint :: runtime where
  "null_error_endpoint = answering (Resolves \<lparr>ok = False, json_result = Parsed JNull\<rparr>)"

text \<open>Every request is answered with status 400 and the body \<open>{"message": "bad request"}\<close>.\<close>

definition bad_request_endpoint :: runtime where
  "bad_request_endpoint =
     answering (Resolves \<lparr>ok = False,
       json_result = Parsed (JObj [(''message'', JStr ''bad request'')])\<rparr>)"

text \<open>Every request is answered with status 404 and the body \<open>{"message": 404}\<close>.\<close>

definition numeric_message_endpoint :: runtime where
  "numeric_message_endpoint =
     answering (Resolves \<lparr>ok = False,
       json_result = Parsed (JObj [(''message'', JNum 404)])\<rparr>)"

text \<open>Every request is answered with status 500 and the body \<open>{"code": 11}\<close>, no message.\<close>

definition code_only_endpoint :: runtime where
  "code_only_endpoint =
     answering (Resolves \<lparr>ok = False,
       json_result = Parsed (JObj [(''code'', JNum 11)])\<rparr>)"

text \<open>Every request is answered with a success status and the body \<open>{"id": "asset-1"}\<close>.\<close>

definition asset_endpoint :: runtime where
  "asset_endpoint =
     answering (Resolves \<lparr>ok = True,
       json_result = Parsed (JObj [(''id'', JStr ''asset-1'')])\<rparr>)"

text \<open>Every request is answered with a success status and the body \<open>{"id": 7}\<close>.\<close>

definition numeric_asset_endpoint :: runtime where
  "numeric_asset_endpoint =
     answering (Resolves \<lparr>ok = True,
       json_result = Parsed (JObj [(''id'', JNum 7)])\<rparr>)"

text \<open>
  Every request is answered with a success status and an empty body: \<open>json()\<close> throws
  \<open>new SyntaxError("Unexpected end of JSON input")\<close>.
\<close>

definition empty_body_endpoint :: runtime where
  "empty_body_endpoint =
     answering (Resolves \<lparr>ok = True,
       json_result = Unparseable (ThrownError ''Unexpected end of JSON input'')\<rparr>)"

section \<open>Properties of the sequence tracker\<close>

lemma evict_loop_fold:
  "evict_loop i keys t = fold AList.delete (take (500 - i) (drop i keys)) t"
proof (induction i keys t rule: evict_loop.induct)
  case (1 i keys t)
  show ?case
  proof (cases "i < 500")
    case False
    then show ?thesis by (simp add: evict_loop.simps)
  next
    case True
    then obtain m where m: "500 - i = Suc m" "500 - (i + 1) = m"
      by (metis Suc_diff_Suc Suc_eq_plus1 diff_diff_left plus_1_eq_Suc)
    show ?thesis
    proof (cases "i < length keys")
      case False
      with True 1 show ?thesis
        by (subst evict_loop.simps) (simp add: js_index_def)
    next
      case in_range: True
      have "drop i keys = keys ! i # drop (i + 1) keys"
        using in_range by (simp add: Cons_nth_drop_Suc)
      with True 1 m in_range show ?thesis
        by (subst evict_loop.simps) (simp add: js_index_def)
    qed
  qed
qed

lemma fold_delete_take:
  "distinct (map fst t) \<Longrightarrow> fold AList.delete (take n (map fst t)) t = drop n t"
proof (induction t arbitrary: n)
  case Nil
  then show ?case by simp
next
  case (Cons p t)
  show ?case
  proof (cases n)
    case 0
    then show ?thesis by simp
  next
    case (Suc m)
    obtain k v where p: "p = (k, v)" by (cases p)
    from Cons.prems p have "k \<notin> fst ` set t" by auto
    then have "AList.delete k t = t" by simp
    with Cons Suc p show ?thesis by simp
  qed
qed

lemma evict_oldest:
  "distinct (map fst t) \<Longrightarrow> evict_loop 0 (map fst t) t = drop 500 t"
  by (simp add: evict_loop_fold fold_delete_take)


lemma update_fresh: "map_of t k = None \<Longrightarrow> AList.update k v t = t @ [(k, v)]"
  by (induction t) (auto split: if_splits)

lemma length_update_fresh: "map_of t k = None \<Longrightarrow> length (AList.update k v t) = Suc (length t)"
  by (simp add: update_fresh)

lemma length_update_present: "map_of t k = Some c \<Longrightarrow> length (AList.update k v t) = length t"
  by (induction t) (auto split: if_splits)

lemma map_of_None_keys: "(map_of t k = None) = (k \<notin> set (map fst t))"
  by (simp add: map_of_eq_None_iff)

lemma getNextMsgSeq_fresh_small:
  assumes "map_of t msgId = None" "length t < 1000"
  shows "getNextMsgSeq t msgId = (1, t @ [(msgId, 1)])"
  using assms by (simp add: getNextMsgSeq_def update_fresh)

lemma getNextMsgSeq_fresh_full:
  assumes "distinct (map fst t)" "map_of t msgId = None" "length t = 1000"
  shows "getNextMsgSeq t msgId = (1, drop 500 t @ [(msgId, 1)])"
proof -
  let ?t1 = "t @ [(msgId, 1)]"
  have d: "distinct (map fst ?t1)"
    using assms(1,2) by (simp add: map_of_None_keys)
  have "evict_loop 0 (map fst ?t1) ?t1 = drop 500 ?t1"
    using d by (rule evict_oldest)
  then have "evict_loop 0 (map fst t @ [msgId]) ?t1 = drop 500 t @ [(msgId, 1)]"
    using assms(3) by simp
  then show ?thesis
    using assms(2,3) by (simp add: getNextMsgSeq_def update_fresh)
qed

lemma getNextMsgSeq_present:
  assumes "map_of t msgId = Some c" "length t \<le> 1000"
  shows "getNextMsgSeq t msgId = (Suc c, AList.update msgId (Suc c) t)"
  using assms by (simp add: getNextMsgSeq_def length_update_present)


lemma getNextMsgSeq_ok:
  assumes "tracker_ok t"
  shows "tracker_ok (snd (getNextMsgSeq t msgId))"
proof (cases "map_of t msgId")
  case (Some c)
  with assms show ?thesis
    by (simp add: tracker_ok_def getNextMsgSeq_present distinct_update length_update_present)
next
  case None
  show ?thesis
  proof (cases "length t < 1000")
    case True
    with None assms show ?thesis
      by (simp add: tracker_ok_def getNextMsgSeq_fresh_small map_of_None_keys)
  next
    case False
    with assms have len: "length t = 1000" by (simp add: tracker_ok_def)
    have "distinct (map fst (drop 500 t))"
      using assms by (simp add: tracker_ok_def drop_map [symmetric] distinct_drop)
    moreover have "msgId \<notin> fst ` set (drop 500 t)"
      using None by (metis map_of_None_keys image_set in_set_dropD list.set_map drop_map)
    ultimately show ?thesis
      using None assms len by (simp add: tracker_ok_def getNextMsgSeq_fresh_full)
  qed
qed

lemma calls_Cons:
  "calls t (x # xs) =
     (fst (getNextMsgSeq t x) # fst (calls (snd (getNextMsgSeq t x)) xs),
      snd (calls (snd (getNextMsgSeq t x)) xs))"
  by (simp split: prod.splits)

declare calls.simps(2) [simp del]

lemma calls_ok: "tracker_ok t \<Longrightarrow> tracker_ok (snd (calls t ids))"
proof (induction ids arbitrary: t)
  case Nil
  then show ?case by simp
next
  case (Cons x xs)
  from Cons.prems have "tracker_ok (snd (getNextMsgSeq t x))" by (rule getNextMsgSeq_ok)
  then have "tracker_ok (snd (calls (snd (getNextMsgSeq t x)) xs))" by (rule Cons.IH)
  then show ?case by (simp add: calls_Cons)
qed

lemma calls_same_id:
  "calls [(msgId, c)] (replicate n msgId) = ([Suc c..<Suc c + n], [(msgId, c + n)])"
proof (induction n arbitrary: c)
  case 0
  then show ?case by simp
next
  case (Suc n)
  have "getNextMsgSeq [(msgId, c)] msgId = (Suc c, [(msgId, Suc c)])"
    by (simp add: getNextMsgSeq_def)
  then show ?case
    using Suc [of "Suc c"] by (simp add: calls_Cons upt_rec [of "Suc c"])
qed

text \<open>
  Claim C2. In a run that consists only of calls \<open>getNextMsgSeq(msgId)\<close> on one
  identifier, starting with the empty tracker, the calls return \<open>1, 2, \<dots>, n\<close>: the
  \<open>n\<close>-th call returns \<open>n\<close>. The counter is stored: after \<open>n \<ge> 1\<close> calls the tracker
  holds exactly the entry \<open>(msgId, n)\<close>.
\<close>

theorem nth_call_returns_n:
  "calls [] (replicate n msgId) = ([1..<Suc n], if n = 0 then [] else [(msgId, n)])"
proof (cases n)
  case 0
  then show ?thesis by simp
next
  case (Suc m)
  have "getNextMsgSeq [] msgId = (1, [(msgId, 1)])"
    by (simp add: getNextMsgSeq_def)
  then show ?thesis
    using Suc calls_same_id [of msgId 1 m] by (simp add: calls_Cons upt_rec [of "Suc 0"])
qed


lemma calls_append:
  "calls t (xs @ ys) =
     (fst (calls t xs) @ fst (calls (snd (calls t xs)) ys), snd (calls (snd (calls t xs)) ys))"
  by (induction xs arbitrary: t) (simp_all add: calls_Cons)

lemma calls_fresh:
  "distinct ids \<Longrightarrow> set ids \<inter> set (map fst t) = {} \<Longrightarrow> length t + length ids \<le> 1000 \<Longrightarrow>
   calls t ids = (replicate (length ids) 1, t @ map (\<lambda>k. (k, 1)) ids)"
proof (induction ids arbitrary: t)
  case Nil
  then show ?case by simp
next
  case (Cons x xs)
  have g: "getNextMsgSeq t x = (1, t @ [(x, 1)])"
    using Cons.prems by (intro getNextMsgSeq_fresh_small) (auto simp: map_of_None_keys)
  have "calls (t @ [(x, 1)]) xs = (replicate (length xs) 1, (t @ [(x, 1)]) @ map (\<lambda>k. (k, 1)) xs)"
    using Cons.prems by (intro Cons.IH) auto
  with g show ?case by (simp add: calls_Cons)
qed

lemma results_for_Cons:
  "results_for msgId (x # xs) (n # ns) =
     (if x = msgId then n # results_for msgId xs ns else results_for msgId xs ns)"
  by (simp add: results_for_def)

lemma getNextMsgSeq_no_evict:
  assumes "distinct (map fst t)" "card (insert x (set (map fst t))) \<le> 1000"
  shows "getNextMsgSeq t x =
           (Suc (case map_of t x of None \<Rightarrow> 0 | Some c \<Rightarrow> c),
            AList.update x (Suc (case map_of t x of None \<Rightarrow> 0 | Some c \<Rightarrow> c)) t)"
proof (cases "map_of t x")
  case (Some c)
  have "length t = card (set (map fst t))"
    using assms(1) by (metis distinct_card length_map)
  also have "\<dots> \<le> card (insert x (set (map fst t)))"
    by (simp add: card_insert_le)
  finally have "length t \<le> 1000" using assms(2) by simp
  with Some show ?thesis by (simp add: getNextMsgSeq_present)
next
  case None
  then have nin: "x \<notin> set (map fst t)" by (simp add: map_of_None_keys)
  have "length t = card (set (map fst t))"
    using assms(1) by (metis distinct_card length_map)
  with nin assms(2) have "length t < 1000" by simp
  with None show ?thesis by (simp add: getNextMsgSeq_fresh_small update_fresh)
qed

lemma results_no_evict:
  "distinct (map fst t) \<Longrightarrow> card (set (map fst t) \<union> set ids) \<le> 1000 \<Longrightarrow>
   results_for msgId ids (fst (calls t ids)) =
     [Suc (case map_of t msgId of None \<Rightarrow> 0 | Some c \<Rightarrow> c) ..<
      Suc (case map_of t msgId of None \<Rightarrow> 0 | Some c \<Rightarrow> c) + count_list ids msgId]"
proof (induction ids arbitrary: t)
  case Nil
  then show ?case by (simp add: results_for_def)
next
  case (Cons x xs)
  let ?c = "\<lambda>t k. case map_of t k of None \<Rightarrow> 0 | Some c \<Rightarrow> c"
  let ?t' = "AList.update x (Suc (?c t x)) t"
  have fin: "finite (set (map fst t) \<union> set (x # xs))" by simp
  have "card (insert x (set (map fst t))) \<le> card (set (map fst t) \<union> set (x # xs))"
    by (rule card_mono [OF fin]) auto
  with Cons.prems have g: "getNextMsgSeq t x = (Suc (?c t x), ?t')"
    by (intro getNextMsgSeq_no_evict) auto
  have d': "distinct (map fst ?t')"
    using Cons.prems(1) by (rule distinct_update)
  have "set (map fst ?t') \<union> set xs = set (map fst t) \<union> set (x # xs)"
    by (auto simp: dom_update)
  with Cons.prems(2) have c': "card (set (map fst ?t') \<union> set xs) \<le> 1000" by simp
  have ih: "results_for msgId xs (fst (calls ?t' xs)) =
              [Suc (?c ?t' msgId) ..< Suc (?c ?t' msgId) + count_list xs msgId]"
    using d' c' by (rule Cons.IH)
  show ?case
  proof (cases "x = msgId")
    case True
    then have "?c ?t' msgId = Suc (?c t msgId)" by (simp add: update_conv')
    with True ih g show ?thesis
      by (simp add: calls_Cons results_for_Cons upt_rec [of "Suc (?c t msgId)"])
  next
    case False
    then have "?c ?t' msgId = ?c t msgId" by (simp add: update_conv')
    with False ih g show ?thesis
      by (simp add: calls_Cons results_for_Cons)
  qed
qed

text \<open>
  Claim C3, amended. In every interleaved sequence of calls that uses at most 1000
  different identifiers, starting with the empty tracker, the numbers returned for each
  identifier are \<open>1, 2, 3, \<dots>\<close> in order, whatever calls on other identifiers come in
  between.
\<close>

theorem interleaved_calls_independent:
  assumes "card (set ids) \<le> 1000"
  shows "results_for msgId ids (fst (calls [] ids)) = [1..<Suc (count_list ids msgId)]"
  using results_no_evict [of "[]" ids msgId] assms by simp

lemma map_of_drop_distinct:
  assumes "distinct (map fst t)" "k \<in> set (map fst (drop n t))"
  shows "map_of (drop n t) k = map_of t k"
proof -
  have "distinct (map fst (take n t) @ map fst (drop n t))"
    using assms(1) by (metis append_take_drop_id map_append)
  with assms(2) have "k \<notin> set (map fst (take n t))" by auto
  then have "map_of (take n t) k = None" by (simp add: map_of_None_keys)
  then have "map_of (take n t @ drop n t) k = map_of (drop n t) k"
    by (simp only: map_of_append map_add_def option.case)
  then show ?thesis by simp
qed

lemma map_of_take_drop_None:
  assumes "distinct (map fst t)" "k \<in> set (map fst (take n t))"
  shows "map_of (drop n t) k = None"
proof -
  have "distinct (map fst (take n t) @ map fst (drop n t))"
    using assms(1) by (metis append_take_drop_id map_append)
  with assms(2) have "k \<notin> set (map fst (drop n t))" by auto
  then show ?thesis by (simp add: map_of_None_keys)
qed

lemma overflow_fresh:
  assumes "length t \<le> 1000" "1000 < length (AList.update msgId v t)"
  shows "map_of t msgId = None \<and> length t = 1000"
proof (cases "map_of t msgId")
  case (Some c)
  with assms show ?thesis by (simp add: length_update_present)
next
  case None
  with assms show ?thesis by (simp add: length_update_fresh)
qed

text \<open>
  Claim C1. Let the tracker hold distinct identifiers, at most 1000 of them (every call
  leaves it so, see \<open>calls_ok\<close>), and let a call bring the count above 1000: after
  \<open>msgSeqTracker.set(msgId, next)\<close> the size exceeds 1000. Then the call returns 1 and
  leaves the tracker that evicting the oldest 500 entries and then inserting the new
  identifier gives: the entries after the first 500, followed by \<open>(msgId, 1)\<close>. It holds
  at most 501 identifiers, the 500 most recently inserted identifiers keep their
  counters, and the 500 oldest are gone.
\<close>

theorem eviction_keeps_recent_half:
  assumes "distinct (Map_keys t)" and "Map_size t \<le> 1000"
    and "1000 < Map_size (Map_set t msgId (fst (getNextMsgSeq t msgId)))"
  shows "getNextMsgSeq t msgId = (1, evict_then_insert t msgId)
       \<and> evict_then_insert t msgId = drop 500 t @ [(msgId, 1)]
       \<and> Map_size (snd (getNextMsgSeq t msgId)) \<le> 501
       \<and> (\<forall>k \<in> set (Map_keys (drop (Map_size t - 500) t)).
             Map_get (snd (getNextMsgSeq t msgId)) k = Map_get t k)
       \<and> (\<forall>k \<in> set (Map_keys (take 500 t)).
             Map_get (snd (getNextMsgSeq t msgId)) k = None)"
proof -
  have "map_of t msgId = None \<and> length t = 1000"
    using assms(2,3) by (rule overflow_fresh)
  then have fresh: "map_of t msgId = None" and len: "length t = 1000"
    by simp_all
  have g: "getNextMsgSeq t msgId = (1, drop 500 t @ [(msgId, 1)])"
    using assms(1) fresh len by (rule getNextMsgSeq_fresh_full)
  have nin: "msgId \<notin> set (map fst t)"
    using fresh by (simp add: map_of_None_keys)
  then have nin_drop: "msgId \<notin> set (map fst (drop 500 t))"
    by (metis in_set_dropD drop_map)
  then have e: "evict_then_insert t msgId = drop 500 t @ [(msgId, 1)]"
    by (simp add: evict_then_insert_def update_fresh map_of_None_keys)
  have kept: "map_of (drop 500 t @ [(msgId, 1)]) k = map_of t k"
    if "k \<in> set (map fst (drop 500 t))" for k
  proof -
    from that nin_drop have "k \<noteq> msgId" by auto
    then have "map_of (drop 500 t @ [(msgId, 1)]) k = map_of (drop 500 t) k"
      by (simp add: map_add_def split: option.splits)
    also have "\<dots> = map_of t k"
      using assms(1) that by (rule map_of_drop_distinct)
    finally show ?thesis .
  qed
  have gone: "map_of (drop 500 t @ [(msgId, 1)]) k = None"
    if "k \<in> set (map fst (take 500 t))" for k
  proof -
    from that nin have "k \<noteq> msgId"
      by (metis in_set_takeD take_map)
    moreover have "map_of (drop 500 t) k = None"
      using assms(1) that by (rule map_of_take_drop_None)
    ultimately show ?thesis by (simp add: map_add_def)
  qed
  have size: "length (drop 500 t @ [(msgId, 1)]) \<le> 501"
    using len by simp
  have recent: "drop (length t - 500) t = drop 500 t"
    using len by simp
  show ?thesis
    unfolding g e recent snd_conv
    using size kept gone by blast
qed


lemma length_thousand_ids: "length thousand_ids = 1000"
  by (simp add: thousand_ids_def)

lemma distinct_thousand_ids: "distinct thousand_ids"
proof -
  have "inj_on (\<lambda>n. replicate (Suc n) CHR ''k'') A" for A
    by (rule inj_onI) (metis length_replicate nat.inject)
  then show ?thesis
    by (simp add: thousand_ids_def distinct_map)
qed

lemma a_notin_thousand_ids: "''a'' \<notin> set thousand_ids"
  by (auto simp: thousand_ids_def)

lemma keys_thousand_tracker: "map fst thousand_tracker = thousand_ids"
  by (simp add: thousand_tracker_def comp_def)

lemma calls_thousand_ids: "calls [] thousand_ids = (replicate 1000 1, thousand_tracker)"
  using calls_fresh [of thousand_ids "[]"]
  by (simp add: distinct_thousand_ids length_thousand_ids thousand_tracker_def)

theorem eviction_keeps_recent_half_witness:
  "distinct (Map_keys thousand_tracker) \<and> Map_size thousand_tracker \<le> 1000
   \<and> 1000 < Map_size (Map_set thousand_tracker ''a'' (fst (getNextMsgSeq thousand_tracker ''a'')))
   \<and> getNextMsgSeq thousand_tracker ''a'' = (1, drop 500 thousand_tracker @ [(''a'', 1)])
   \<and> Map_size (snd (getNextMsgSeq thousand_tracker ''a'')) = 501"
proof -
  have d: "distinct (Map_keys thousand_tracker)"
    by (simp add: keys_thousand_tracker distinct_thousand_ids)
  have l: "Map_size thousand_tracker = 1000"
    by (simp add: thousand_tracker_def length_thousand_ids)
  have f: "map_of thousand_tracker ''a'' = None"
    by (simp add: map_of_None_keys keys_thousand_tracker a_notin_thousand_ids)
  have o: "1000 < Map_size (Map_set thousand_tracker ''a'' (fst (getNextMsgSeq thousand_tracker ''a'')))"
    using f l by (simp add: length_update_fresh)
  from l have l': "Map_size thousand_tracker \<le> 1000" by simp
  from eviction_keeps_recent_half [OF d l' o] have "getNextMsgSeq thousand_tracker ''a'' = (1, drop 500 thousand_tracker @ [(''a'', 1)])"
    by simp
  with d l o show ?thesis by simp
qed

lemma results_for_append:
  "length xs = length ns \<Longrightarrow>
   results_for a (xs @ ys) (ns @ ms) = results_for a xs ns @ results_for a ys ms"
  by (simp add: results_for_def)

lemma results_for_notin: "a \<notin> set xs \<Longrightarrow> results_for a xs ns = []"
  by (auto simp: results_for_def filter_empty_conv dest: set_zip_leftD)

lemma evicted_then_restarts:
  assumes "distinct ks" "length ks = 1000" "a \<notin> set ks"
  shows "results_for a (a # ks @ [a]) (fst (calls [] (a # ks @ [a]))) = [1, 1]"
proof -
  from assms(2) obtain ks' k where ks: "ks = ks' @ [k]"
    by (cases ks rule: rev_cases) auto
  let ?t = "(a, 1) # map (\<lambda>k. (k, 1)) ks'"
  have "calls [] (a # ks') = (replicate (length (a # ks')) 1, [] @ map (\<lambda>k. (k, 1)) (a # ks'))"
    by (rule calls_fresh) (use assms ks in auto)
  then have c1: "calls [] (a # ks') = (1 # replicate (length ks') 1, ?t)"
    by simp
  have dt: "distinct (map fst ?t)"
    using assms ks by (simp add: comp_def)
  have "map_of ?t k = None"
    using assms ks by (auto simp: map_of_None_keys comp_def)
  moreover have lt: "length ?t = 1000" using assms(2) ks by simp
  ultimately have c2: "getNextMsgSeq ?t k = (1, drop 500 ?t @ [(k, 1)])"
    using dt by (intro getNextMsgSeq_fresh_full)
  let ?u = "drop 500 ?t @ [(k, 1)]"
  have keys: "map fst (drop 500 ?t) = drop 499 ks'"
    by (simp add: drop_Cons' drop_map comp_def)
  have "a \<notin> set (drop 499 ks')"
    using assms(3) ks by (auto dest: in_set_dropD)
  then have "a \<notin> set (map fst (drop 500 ?t))"
    unfolding keys .
  moreover have "a \<noteq> k" using assms(3) ks by auto
  ultimately have "map_of ?u a = None"
    by (simp only: map_of_None_keys map_append set_append list.map list.set fst_conv) simp
  moreover have "length ?u < 1000" using lt by simp
  ultimately have c3: "getNextMsgSeq ?u a = (1, ?u @ [(a, 1)])"
    by (rule getNextMsgSeq_fresh_small)
  have c23: "calls ?t [k, a] = ([1, 1], ?u @ [(a, 1)])"
    by (simp only: calls_Cons calls.simps(1) c2 c3 fst_conv snd_conv)
  have "calls [] ((a # ks') @ [k, a]) =
          (fst (calls [] (a # ks')) @ fst (calls (snd (calls [] (a # ks'))) [k, a]),
           snd (calls (snd (calls [] (a # ks'))) [k, a]))"
    by (rule calls_append)
  then have "fst (calls [] ((a # ks') @ [k, a])) = (1 # replicate (length ks') 1) @ [1, 1]"
    by (simp only: c1 c23 fst_conv snd_conv)
  then have r: "fst (calls [] (a # ks' @ [k, a])) = 1 # replicate (length ks') 1 @ [1, 1]"
    by simp
  have "a \<notin> set ks'" using assms(3) ks by simp
  then have "results_for a (ks' @ [k, a]) (replicate (length ks') 1 @ [1, 1]) = [] @ results_for a [k, a] [1, 1]"
    by (simp add: results_for_append results_for_notin)
  also have "\<dots> = [1]"
    using \<open>a \<noteq> k\<close> by (simp add: results_for_Cons) (simp add: results_for_def)
  finally have "results_for a (a # ks' @ [k, a]) (1 # replicate (length ks') 1 @ [1, 1]) = [1, 1]"
    by (simp add: results_for_Cons)
  then show ?thesis
    using ks r by simp
qed

text \<open>
  Claim C3 as stated fails: calls on other identifiers do perturb a counter once they
  trigger the eviction. After a call on \<open>a\<close> and calls on a thousand other identifiers,
  the second call on \<open>a\<close> returns 1 again, so the numbers returned for \<open>a\<close> are
  \<open>1, 1\<close> and not \<open>1, 2\<close>.
\<close>

theorem interleaved_calls_counterexample:
  "results_for ''a'' (''a'' # thousand_ids @ [''a''])
     (fst (calls [] (''a'' # thousand_ids @ [''a'']))) = [1, 1]"
  using distinct_thousand_ids length_thousand_ids a_notin_thousand_ids
  by (rule evicted_then_restarts)

theorem interleaved_calls_independent_witness:
  "card (set [''m1'', ''m2'', ''m1'']) \<le> 1000
   \<and> results_for ''m1'' [''m1'', ''m2'', ''m1''] (fst (calls [] [''m1'', ''m2'', ''m1''])) = [1, 2]"
proof -
  have "card (set [''m1'', ''m2'', ''m1'']) \<le> length [''m1'', ''m2'', ''m1'']"
    by (rule card_length)
  then have c: "card (set [''m1'', ''m2'', ''m1'']) \<le> 1000" by simp
  from interleaved_calls_independent [OF c, of "''m1''"] c show ?thesis
    by (simp add: upt_rec)
qed


section \<open>Properties of the token cache\<close>

text \<open>
  Claim C4. If a cached credential exists and the current time is more than 5 minutes
  (300000 ms) before its stored expiry, \<open>getAccessToken\<close> returns the cached token, makes
  no request, and leaves the cached credential as it is.
\<close>

theorem fresh_cache_no_request:
  assumes "cachedToken = Some c" and "expiresAt c = Num e" and "300000 < e - now_check"
  shows "getAccessToken rt now_check now_store cachedToken appId clientSecret =
           (Inr (token c), cachedToken, [])"
  using assms by (simp add: getAccessToken_def)

theorem fresh_cache_no_request_witness:
  "expiresAt \<lparr>token = JStr ''T0'', expiresAt = Num 1000000\<rparr> = Num 1000000
   \<and> (300000::int) < 1000000 - 600000
   \<and> getAccessToken token_endpoint_T1 600000 600050
         (Some \<lparr>token = JStr ''T0'', expiresAt = Num 1000000\<rparr>) ''app'' ''secret'' =
       (Inr (JStr ''T0''), Some \<lparr>token = JStr ''T0'', expiresAt = Num 1000000\<rparr>, [])"
proof -
  have h1: "expiresAt \<lparr>token = JStr ''T0'', expiresAt = Num 1000000\<rparr> = Num 1000000" by simp
  have h2: "(300000::int) < 1000000 - 600000" by simp
  from fresh_cache_no_request [OF refl h1 h2, of token_endpoint_T1 600050 "''app''" "''secret''"]
       h1 h2
  show ?thesis by simp
qed

lemma refresh_token_trace:
  "snd (snd (refresh_token rt now_store cachedToken appId clientSecret)) =
     [token_request appId clientSecret]"
  by (simp add: refresh_token_def Let_def
           split: fetch_result.splits parsed.splits option.splits sum.splits)

lemma getAccessToken_stale:
  "\<not> cache_fresh now_check cachedToken \<Longrightarrow>
   getAccessToken rt now_check now_store cachedToken appId clientSecret =
     refresh_token rt now_store cachedToken appId clientSecret"
  by (simp add: getAccessToken_def cache_fresh_def split: option.splits)

text \<open>
  Claim C5 as stated fails. A call 200 seconds before the cached expiry, which is
  strictly less than 5 minutes before it, does make a request and returns the new token
  \<open>T1\<close>, not the cached \<open>T0\<close>: the code refreshes 5 minutes early.
\<close>

theorem within_margin_refreshes_counterexample:
  "(800000::int) < 1000000 \<and> (1000000::int) - 800000 < 300000
   \<and> getAccessToken token_endpoint_T1 800000 800050
         (Some \<lparr>token = JStr ''T0'', expiresAt = Num 1000000\<rparr>) ''app'' ''secret'' =
       (Inr (JStr ''T1''), Some \<lparr>token = JStr ''T1'', expiresAt = Num 900050\<rparr>,
        [token_request ''app'' ''secret''])"
  by (simp add: getAccessToken_def refresh_token_def token_endpoint_T1_def answering_def)

text \<open>
  Claim C5, amended. A call more than 5 minutes before the cached expiry makes no
  request and returns the cached token, the cache unchanged. A call 5 minutes or less
  before the cached expiry, at or after it, or with no cache makes exactly one request,
  to the token endpoint. (So does a call with a cached expiry that is no number.)
\<close>

theorem cache_margin_five_minutes:
  "(cachedToken = Some c \<and> expiresAt c = Num e \<and> 300000 < e - now_check \<longrightarrow>
      getAccessToken rt now_check now_store cachedToken appId clientSecret =
        (Inr (token c), cachedToken, []))
   \<and> (cachedToken = None \<or>
       (cachedToken = Some c \<and>
        (expiresAt c = NaN \<or> (expiresAt c = Num e \<and> e - now_check \<le> 300000))) \<longrightarrow>
      snd (snd (getAccessToken rt now_check now_store cachedToken appId clientSecret)) =
        [token_request appId clientSecret]
      \<and> target (token_request appId clientSecret) = TOKEN_URL)"
  by (auto simp: getAccessToken_def refresh_token_trace token_request_def)

theorem cache_margin_five_minutes_witness:
  "(300000::int) < 1000000 - 600000
   \<and> getAccessToken token_endpoint_T1 600000 600050
         (Some \<lparr>token = JStr ''T0'', expiresAt = Num 1000000\<rparr>) ''app'' ''secret'' =
       (Inr (JStr ''T0''), Some \<lparr>token = JStr ''T0'', expiresAt = Num 1000000\<rparr>, [])
   \<and> (1000000::int) - 800000 \<le> 300000
   \<and> snd (snd (getAccessToken token_endpoint_T1 800000 800050
         (Some \<lparr>token = JStr ''T0'', expiresAt = Num 1000000\<rparr>) ''app'' ''secret'')) =
       [token_request ''app'' ''secret'']
   \<and> snd (snd (getAccessToken token_endpoint_T1 1200000 1200050
         (Some \<lparr>token = JStr ''T0'', expiresAt = Num 1000000\<rparr>) ''app'' ''secret'')) =
       [token_request ''app'' ''secret'']
   \<and> snd (snd (getAccessToken token_endpoint_T1 800000 800050 None ''app'' ''secret'')) =
       [token_request ''app'' ''secret'']"
  using cache_margin_five_minutes [of "Some \<lparr>token = JStr ''T0'', expiresAt = Num 1000000\<rparr>"
          "\<lparr>token = JStr ''T0'', expiresAt = Num 1000000\<rparr>" 1000000 600000
          token_endpoint_T1 600050 "''app''" "''secret''"]
        cache_margin_five_minutes [of "Some \<lparr>token = JStr ''T0'', expiresAt = Num 1000000\<rparr>"
          "\<lparr>token = JStr ''T0'', expiresAt = Num 1000000\<rparr>" 1000000 800000
          token_endpoint_T1 800050 "''app''" "''secret''"]
        cache_margin_five_minutes [of "Some \<lparr>token = JStr ''T0'', expiresAt = Num 1000000\<rparr>"
          "\<lparr>token = JStr ''T0'', expiresAt = Num 1000000\<rparr>" 1000000 1200000
          token_endpoint_T1 1200050 "''app''" "''secret''"]
        cache_margin_five_minutes [of None "\<lparr>token = JStr ''T0'', expiresAt = Num 1000000\<rparr>"
          1000000 800000 token_endpoint_T1 800050 "''app''" "''secret''"]
  by simp

text \<open>
  Claim C6 as stated fails for the parsed body \<open>null\<close>, a body that lacks a token
  field: the read \<open>data.access_token\<close> throws the runtime's \<open>TypeError\<close>, which is not
  the error with the serialized body.
\<close>

theorem null_token_body_counterexample:
  "getAccessToken null_endpoint 0 50 None ''app'' ''secret'' =
     (Inl (TypeError ''access_token''), None, [token_request ''app'' ''secret''])
   \<and> fst (getAccessToken null_endpoint 0 50 None ''app'' ''secret'') \<noteq>
       Inl (Error (''Failed to get access_token: '' @ JSON_stringify null_endpoint JNull))"
  by (simp add: getAccessToken_def refresh_token_def null_endpoint_def answering_def)

text \<open>
  Claim C6, amended. When no fresh cached credential exists, \<open>getAccessToken\<close> makes
  exactly one request: a POST to the token endpoint whose body is \<open>{appId, clientSecret}\<close>.
  \<^item> If \<open>fetch\<close> rejects, the call fails with the network error, whose text ends with
    the cause.
  \<^item> If the body cannot be parsed, the call fails with the parse error.
  \<^item> If the parsed body is not \<open>null\<close> and has no token (it is no object, or its
    \<open>access_token\<close> is absent or falsy), the call fails with the error that includes the
    serialized body.
  \<^item> Whenever the call fails, the cached credential is unchanged.
  \<^item> If the parsed body is an object with a truthy \<open>access_token\<close>, the call returns
    that token and the cache becomes the credential with that token and the expiry
    \<open>now_store + lifetime * 1000\<close>. The lifetime is \<open>expires_in\<close> when that is a number,
    7200 seconds when it is absent or \<open>null\<close>, 1 or 0 when it is \<open>true\<close> or \<open>false\<close>,
    and otherwise the number the runtime converts it to: the expiry is \<open>NaN\<close> when that
    is \<open>NaN\<close>, and the call fails, the cache unchanged, when the conversion throws.
\<close>

theorem refresh_outcomes:
  assumes "\<not> cache_fresh now_check cachedToken"
  shows
   "snd (snd (getAccessToken rt now_check now_store cachedToken appId clientSecret)) =
      [\<lparr>target = TOKEN_URL, http_method = ''POST'',
        headers = [(''Content-Type'', ''application/json'')],
        body = Some (JObj [(''appId'', JStr appId), (''clientSecret'', JStr clientSecret)])\<rparr>]
    \<and> (fetch rt (token_request appId clientSecret) = Rejects err \<and>
        (err = ThrownError cause \<or> err = ThrownOther cause) \<longrightarrow>
         getAccessToken rt now_check now_store cachedToken appId clientSecret =
           (Inl (Error (''Network error getting access_token: '' @ cause)),
            cachedToken, [token_request appId clientSecret]))
    \<and> (fetch rt (token_request appId clientSecret) = Resolves res \<and>
        json_result res = Unparseable err \<and>
        (err = ThrownError cause \<or> err = ThrownOther cause) \<longrightarrow>
         getAccessToken rt now_check now_store cachedToken appId clientSecret =
           (Inl (Error (''Failed to parse access_token response: '' @ cause)),
            cachedToken, [token_request appId clientSecret]))
    \<and> (fetch rt (token_request appId clientSecret) = Resolves res \<and>
        json_result res = Parsed data \<and>
        (data = JBool b \<or> data = JNum n \<or> data = JStr s \<or> data = JArr xs \<or>
         (data = JObj props \<and>
          (map_of props ''access_token'' = None \<or>
           (map_of props ''access_token'' = Some v \<and> \<not> truthy v)))) \<longrightarrow>
         getAccessToken rt now_check now_store cachedToken appId clientSecret =
           (Inl (Error (''Failed to get access_token: '' @ JSON_stringify rt data)),
            cachedToken, [token_request appId clientSecret]))
    \<and> (isl (fst (getAccessToken rt now_check now_store cachedToken appId clientSecret)) \<longrightarrow>
         fst (snd (getAccessToken rt now_check now_store cachedToken appId clientSecret)) =
           cachedToken)
    \<and> (fetch rt (token_request appId clientSecret) = Resolves res \<and>
        json_result res = Parsed (JObj props) \<and>
        map_of props ''access_token'' = Some tok \<and> truthy tok \<longrightarrow>
         (map_of props ''expires_in'' = None \<or> map_of props ''expires_in'' = Some JNull \<longrightarrow>
            getAccessToken rt now_check now_store cachedToken appId clientSecret =
              (Inr tok, Some \<lparr>token = tok, expiresAt = Num (now_store + 7200 * 1000)\<rparr>,
               [token_request appId clientSecret]))
         \<and> (map_of props ''expires_in'' = Some (JNum seconds) \<longrightarrow>
            getAccessToken rt now_check now_store cachedToken appId clientSecret =
              (Inr tok, Some \<lparr>token = tok, expiresAt = Num (now_store + seconds * 1000)\<rparr>,
               [token_request appId clientSecret]))
         \<and> (map_of props ''expires_in'' = Some (JBool flag) \<longrightarrow>
            getAccessToken rt now_check now_store cachedToken appId clientSecret =
              (Inr tok,
               Some \<lparr>token = tok,
                     expiresAt = Num (now_store + (if flag then 1 else 0) * 1000)\<rparr>,
               [token_request appId clientSecret]))
         \<and> (map_of props ''expires_in'' = Some other \<and>
            (other = JStr digits \<or> other = JArr elements \<or> other = JObj members) \<longrightarrow>
              (ToNumber rt other = Inr (Num k) \<longrightarrow>
                 getAccessToken rt now_check now_store cachedToken appId clientSecret =
                   (Inr tok, Some \<lparr>token = tok, expiresAt = Num (now_store + k * 1000)\<rparr>,
                    [token_request appId clientSecret]))
              \<and> (ToNumber rt other = Inr NaN \<longrightarrow>
                 getAccessToken rt now_check now_store cachedToken appId clientSecret =
                   (Inr tok, Some \<lparr>token = tok, expiresAt = NaN\<rparr>,
                    [token_request appId clientSecret]))
              \<and> (ToNumber rt other = Inl failure \<longrightarrow>
                 getAccessToken rt now_check now_store cachedToken appId clientSecret =
                   (Inl failure, cachedToken, [token_request appId clientSecret]))))"
proof -
  have g: "getAccessToken rt now_check now_store cachedToken appId clientSecret =
             refresh_token rt now_store cachedToken appId clientSecret"
    using assms by (rule getAccessToken_stale)
  have c1: "snd (snd (refresh_token rt now_store cachedToken appId clientSecret)) =
      [\<lparr>target = TOKEN_URL, http_method = ''POST'',
        headers = [(''Content-Type'', ''application/json'')],
        body = Some (JObj [(''appId'', JStr appId), (''clientSecret'', JStr clientSecret)])\<rparr>]"
    by (simp add: refresh_token_trace token_request_def)
  have c2: "fetch rt (token_request appId clientSecret) = Rejects err \<and>
        (err = ThrownError cause \<or> err = ThrownOther cause) \<longrightarrow>
         refresh_token rt now_store cachedToken appId clientSecret =
           (Inl (Error (''Network error getting access_token: '' @ cause)),
            cachedToken, [token_request appId clientSecret])"
    by (auto simp: refresh_token_def)
  have c3: "fetch rt (token_request appId clientSecret) = Resolves res \<and>
        json_result res = Unparseable err \<and>
        (err = ThrownError cause \<or> err = ThrownOther cause) \<longrightarrow>
         refresh_token rt now_store cachedToken appId clientSecret =
           (Inl (Error (''Failed to parse access_token response: '' @ cause)),
            cachedToken, [token_request appId clientSecret])"
    by (auto simp: refresh_token_def)
  have c4: "fetch rt (token_request appId clientSecret) = Resolves res \<and>
        json_result res = Parsed data \<and>
        (data = JBool b \<or> data = JNum n \<or> data = JStr s \<or> data = JArr xs \<or>
         (data = JObj props \<and>
          (map_of props ''access_token'' = None \<or>
           (map_of props ''access_token'' = Some v \<and> \<not> truthy v)))) \<longrightarrow>
         refresh_token rt now_store cachedToken appId clientSecret =
           (Inl (Error (''Failed to get access_token: '' @ JSON_stringify rt data)),
            cachedToken, [token_request appId clientSecret])"
    by (auto simp: refresh_token_def)
  have c5: "isl (fst (refresh_token rt now_store cachedToken appId clientSecret)) \<longrightarrow>
         fst (snd (refresh_token rt now_store cachedToken appId clientSecret)) = cachedToken"
    by (simp add: refresh_token_def Let_def
          split: fetch_result.splits parsed.splits option.splits sum.splits if_splits)
  have c6: "fetch rt (token_request appId clientSecret) = Resolves res \<and>
        json_result res = Parsed (JObj props) \<and>
        map_of props ''access_token'' = Some tok \<and> truthy tok \<longrightarrow>
         (map_of props ''expires_in'' = None \<or> map_of props ''expires_in'' = Some JNull \<longrightarrow>
            refresh_token rt now_store cachedToken appId clientSecret =
              (Inr tok, Some \<lparr>token = tok, expiresAt = Num (now_store + 7200 * 1000)\<rparr>,
               [token_request appId clientSecret]))
         \<and> (map_of props ''expires_in'' = Some (JNum seconds) \<longrightarrow>
            refresh_token rt now_store cachedToken appId clientSecret =
              (Inr tok, Some \<lparr>token = tok, expiresAt = Num (now_store + seconds * 1000)\<rparr>,
               [token_request appId clientSecret]))
         \<and> (map_of props ''expires_in'' = Some (JBool flag) \<longrightarrow>
            refresh_token rt now_store cachedToken appId clientSecret =
              (Inr tok,
               Some \<lparr>token = tok,
                     expiresAt = Num (now_store + (if flag then 1 else 0) * 1000)\<rparr>,
               [token_request appId clientSecret]))
         \<and> (map_of props ''expires_in'' = Some other \<and>
            (other = JStr digits \<or> other = JArr elements \<or> other = JObj members) \<longrightarrow>
              (ToNumber rt other = Inr (Num k) \<longrightarrow>
                 refresh_token rt now_store cachedToken appId clientSecret =
                   (Inr tok, Some \<lparr>token = tok, expiresAt = Num (now_store + k * 1000)\<rparr>,
                    [token_request appId clientSecret]))
              \<and> (ToNumber rt other = Inr NaN \<longrightarrow>
                 refresh_token rt now_store cachedToken appId clientSecret =
                   (Inr tok, Some \<lparr>token = tok, expiresAt = NaN\<rparr>,
                    [token_request appId clientSecret]))
              \<and> (ToNumber rt other = Inl failure \<longrightarrow>
                 refresh_token rt now_store cachedToken appId clientSecret =
                   (Inl failure, cachedToken, [token_request appId clientSecret])))"
    by (auto simp: refresh_token_def)
  from c1 c2 c3 c4 c5 c6 show ?thesis
    unfolding g by (intro conjI)
qed

theorem refresh_outcomes_witness:
  "\<not> cache_fresh 0 None
   \<and> \<not> cache_fresh 1200000 (Some \<lparr>token = JStr ''T0'', expiresAt = Num 1000000\<rparr>)
   \<and> getAccessToken token_endpoint_T1 0 50 None ''app'' ''secret'' =
       (Inr (JStr ''T1''), Some \<lparr>token = JStr ''T1'', expiresAt = Num (50 + 100 * 1000)\<rparr>,
        [token_request ''app'' ''secret''])
   \<and> getAccessToken token_endpoint_T2 60 70
         (clearTokenCache (Some \<lparr>token = JStr ''T1'', expiresAt = Num (50 + 100 * 1000)\<rparr>))
         ''app'' ''secret'' =
       (Inr (JStr ''T2''), Some \<lparr>token = JStr ''T2'', expiresAt = Num (70 + 7200 * 1000)\<rparr>,
        [token_request ''app'' ''secret''])
   \<and> getAccessToken token_endpoint_untyped 60 70 None ''app'' ''secret'' =
       (Inr (JNum 12345), Some \<lparr>token = JNum 12345, expiresAt = Num (70 + 100 * 1000)\<rparr>,
        [token_request ''app'' ''secret''])
   \<and> getAccessToken token_endpoint_denied 60 70 None ''app'' ''secret'' =
       (Inl (Error (''Failed to get access_token: {'' @ quoted ''code'' @ '':100016,'' @
                    quoted ''message'' @ '':'' @ quoted ''invalid appid'' @ ''}'')),
        None, [token_request ''app'' ''secret''])
   \<and> getAccessToken token_endpoint_empty 60 70 None ''app'' ''secret'' =
       (Inl (Error (''Failed to get access_token: {'' @ quoted ''access_token'' @ '':'' @
                    quoted [] @ ''}'')),
        None, [token_request ''app'' ''secret''])
   \<and> getAccessToken network_down 1200000 1200050
         (Some \<lparr>token = JStr ''T0'', expiresAt = Num 1000000\<rparr>) ''app'' ''secret'' =
       (Inl (Error ''Network error getting access_token: fetch failed''),
        Some \<lparr>token = JStr ''T0'', expiresAt = Num 1000000\<rparr>,
        [token_request ''app'' ''secret''])
   \<and> getAccessToken html_endpoint 1200000 1200050
         (Some \<lparr>token = JStr ''T0'', expiresAt = Num 1000000\<rparr>) ''app'' ''secret'' =
       (Inl (Error ''Failed to parse access_token response: Unexpected token <''),
        Some \<lparr>token = JStr ''T0'', expiresAt = Num 1000000\<rparr>,
        [token_request ''app'' ''secret''])"
proof -
  let ?old = "Some \<lparr>token = JStr ''T0'', expiresAt = Num 1000000\<rparr>"
  have h: "\<not> cache_fresh n None" for n
    by (simp add: cache_fresh_def)
  have h': "\<not> cache_fresh 1200000 ?old"
    by (simp add: cache_fresh_def)
  have r1: "getAccessToken token_endpoint_T1 0 50 None ''app'' ''secret'' =
       (Inr (JStr ''T1''), Some \<lparr>token = JStr ''T1'', expiresAt = Num (50 + 100 * 1000)\<rparr>,
        [token_request ''app'' ''secret''])"
    using refresh_outcomes [OF h [of 0], where rt = token_endpoint_T1 and now_store = 50
        and appId = "''app''" and clientSecret = "''secret''"
        and res = "\<lparr>ok = True, json_result =
              Parsed (JObj [(''access_token'', JStr ''T1''), (''expires_in'', JNum 100)])\<rparr>"
        and props = "[(''access_token'', JStr ''T1''), (''expires_in'', JNum 100)]"
        and tok = "JStr ''T1''" and seconds = 100]
    by (simp add: token_endpoint_T1_def answering_def)
  have r2: "getAccessToken token_endpoint_T2 60 70 None ''app'' ''secret'' =
       (Inr (JStr ''T2''), Some \<lparr>token = JStr ''T2'', expiresAt = Num (70 + 7200 * 1000)\<rparr>,
        [token_request ''app'' ''secret''])"
    using refresh_outcomes [OF h [of 60], where rt = token_endpoint_T2 and now_store = 70
        and appId = "''app''" and clientSecret = "''secret''"
        and res = "\<lparr>ok = True, json_result = Parsed (JObj [(''access_token'', JStr ''T2'')])\<rparr>"
        and props = "[(''access_token'', JStr ''T2'')]"
        and tok = "JStr ''T2''"]
    by (simp add: token_endpoint_T2_def answering_def)
  have r3: "getAccessToken token_endpoint_untyped 60 70 None ''app'' ''secret'' =
       (Inr (JNum 12345), Some \<lparr>token = JNum 12345, expiresAt = Num (70 + 100 * 1000)\<rparr>,
        [token_request ''app'' ''secret''])"
    using refresh_outcomes [OF h [of 60], where rt = token_endpoint_untyped and now_store = 70
        and appId = "''app''" and clientSecret = "''secret''"
        and res = "\<lparr>ok = True, json_result =
              Parsed (JObj [(''access_token'', JNum 12345), (''expires_in'', JStr ''100'')])\<rparr>"
        and props = "[(''access_token'', JNum 12345), (''expires_in'', JStr ''100'')]"
        and tok = "JNum 12345" and other = "JStr ''100''" and digits = "''100''" and k = 100]
    by (simp add: token_endpoint_untyped_def answering_def)
  have t4: "JSON_stringify token_endpoint_denied
              (JObj [(''code'', JNum 100016), (''message'', JStr ''invalid appid'')]) =
            ''{'' @ quoted ''code'' @ '':100016,'' @
              quoted ''message'' @ '':'' @ quoted ''invalid appid'' @ ''}''"
    by (simp add: token_endpoint_denied_def answering_def int_text_def nat_text.simps digit_def)
  have "getAccessToken token_endpoint_denied 60 70 None ''app'' ''secret'' =
       (Inl (Error (''Failed to get access_token: '' @ JSON_stringify token_endpoint_denied
                 (JObj [(''code'', JNum 100016), (''message'', JStr ''invalid appid'')]))),
        None, [token_request ''app'' ''secret''])"
    using refresh_outcomes [OF h [of 60], where rt = token_endpoint_denied and now_store = 70
        and appId = "''app''" and clientSecret = "''secret''"
        and res = "\<lparr>ok = True, json_result =
              Parsed (JObj [(''code'', JNum 100016), (''message'', JStr ''invalid appid'')])\<rparr>"
        and data = "JObj [(''code'', JNum 100016), (''message'', JStr ''invalid appid'')]"
        and props = "[(''code'', JNum 100016), (''message'', JStr ''invalid appid'')]"]
    by (simp add: token_endpoint_denied_def answering_def)
  then have r4: "getAccessToken token_endpoint_denied 60 70 None ''app'' ''secret'' =
       (Inl (Error (''Failed to get access_token: {'' @ quoted ''code'' @ '':100016,'' @
                    quoted ''message'' @ '':'' @ quoted ''invalid appid'' @ ''}'')),
        None, [token_request ''app'' ''secret''])"
    by (simp only: t4) simp
  have t7: "JSON_stringify token_endpoint_empty (JObj [(''access_token'', JStr [])]) =
            ''{'' @ quoted ''access_token'' @ '':'' @ quoted [] @ ''}''"
    by (simp add: token_endpoint_empty_def answering_def)
  have "getAccessToken token_endpoint_empty 60 70 None ''app'' ''secret'' =
       (Inl (Error (''Failed to get access_token: '' @ JSON_stringify token_endpoint_empty
                 (JObj [(''access_token'', JStr [])]))),
        None, [token_request ''app'' ''secret''])"
    using refresh_outcomes [OF h [of 60], where rt = token_endpoint_empty and now_store = 70
        and appId = "''app''" and clientSecret = "''secret''"
        and res = "\<lparr>ok = True, json_result = Parsed (JObj [(''access_token'', JStr [])])\<rparr>"
        and data = "JObj [(''access_token'', JStr [])]"
        and props = "[(''access_token'', JStr [])]" and v = "JStr []"]
    by (simp add: token_endpoint_empty_def answering_def)
  then have r7: "getAccessToken token_endpoint_empty 60 70 None ''app'' ''secret'' =
       (Inl (Error (''Failed to get access_token: {'' @ quoted ''access_token'' @ '':'' @
                    quoted [] @ ''}'')),
        None, [token_request ''app'' ''secret''])"
    by (simp only: t7) simp
  have r5: "getAccessToken network_down 1200000 1200050 ?old ''app'' ''secret'' =
       (Inl (Error ''Network error getting access_token: fetch failed''), ?old,
        [token_request ''app'' ''secret''])"
    using refresh_outcomes [OF h', where rt = network_down and now_store = 1200050
        and appId = "''app''" and clientSecret = "''secret''"
        and err = "ThrownError ''fetch failed''" and cause = "''fetch failed''"]
    by (simp add: network_down_def answering_def)
  have r6: "getAccessToken html_endpoint 1200000 1200050 ?old ''app'' ''secret'' =
       (Inl (Error ''Failed to parse access_token response: Unexpected token <''), ?old,
        [token_request ''app'' ''secret''])"
    using refresh_outcomes [OF h', where rt = html_endpoint and now_store = 1200050
        and appId = "''app''" and clientSecret = "''secret''"
        and res = "\<lparr>ok = False, json_result = Unparseable (ThrownError ''Unexpected token <'')\<rparr>"
        and err = "ThrownError ''Unexpected token <''" and cause = "''Unexpected token <''"]
    by (simp add: html_endpoint_def answering_def)
  from h [of 0] h' r1 r2 r3 r4 r5 r6 r7 show ?thesis
    by (simp only: clearTokenCache_def) simp
qed

section \<open>Properties of the request wrapper\<close>

lemma apiRequest_trace:
  "snd (apiRequest rt accessToken meth path payload) = [api_request accessToken meth path payload]"
  by (simp add: apiRequest_def Let_def
        split: fetch_result.splits parsed.splits sum.splits)

lemma api_request_object:
  "api_request accessToken meth path (Some (JObj props)) =
     \<lparr>target = API_BASE @ path, http_method = meth,
      headers = [(''Authorization'', ''QQBot '' @ accessToken),
                 (''Content-Type'', ''application/json'')],
      body = Some (JObj props)\<rparr>"
  by (simp add: api_request_def)

text \<open>
  Claim C7 as stated fails for the parsed body \<open>null\<close>: with a status that is no
  success status, the read \<open>error.message\<close> throws the runtime's \<open>TypeError\<close>, which is
  not the API error and has no path in it.
\<close>

theorem null_error_body_counterexample:
  "fst (apiRequest null_error_endpoint ''tok'' ''GET'' ''/gateway'' None) =
     Inl (TypeError ''message'')
   \<and> fst (apiRequest null_error_endpoint ''tok'' ''GET'' ''/gateway'' None) \<noteq>
       Inl (Error (''API Error [/gateway]: '' @ JSON_stringify null_error_endpoint JNull))"
  by (simp add: apiRequest_def null_error_endpoint_def answering_def)

text \<open>
  Claim C7, amended. Let the request of an \<open>apiRequest\<close> call be answered.
  \<^item> If the body does not parse, the call fails with the parse error, whose text holds
    the path and the cause, whatever the status.
  \<^item> If the status is no success status and the parsed body is not \<open>null\<close>, the call
    fails with the API error, whose text holds the path and ends with the \<open>message\<close> of
    the body: the message itself when it is a string, its digits when it is a number,
    \<open>true\<close> or \<open>false\<close> when it is a boolean. When the body has no \<open>message\<close> (it is no
    object, or the property is absent or \<open>null\<close>), the text ends with the serialized body.
  \<^item> A \<open>message\<close> that is an array or an object (or a number beyond \<open>2 ^ 53\<close>) is
    rendered by the runtime; when that conversion throws, the call fails with what it
    throws.
\<close>

theorem api_error_classification:
  assumes "fetch rt (api_request accessToken meth path payload) = Resolves res"
  shows
   "(json_result res = Unparseable err \<and>
     (err = ThrownError cause \<or> err = ThrownOther cause) \<longrightarrow>
       fst (apiRequest rt accessToken meth path payload) =
         Inl (Error (''Failed to parse response ['' @ path @ '']: '' @ cause)))
    \<and> (json_result res = Parsed data \<and> \<not> ok res \<longrightarrow>
         (data = JBool b \<or> data = JNum n \<or> data = JStr s \<or> data = JArr xs \<or>
          (data = JObj props \<and>
           (map_of props ''message'' = None \<or> map_of props ''message'' = Some JNull)) \<longrightarrow>
            fst (apiRequest rt accessToken meth path payload) =
              Inl (Error (''API Error ['' @ path @ '']: '' @ JSON_stringify rt data)))
         \<and> (data = JObj props \<and> map_of props ''message'' = Some (JStr m) \<longrightarrow>
            fst (apiRequest rt accessToken meth path payload) =
              Inl (Error (''API Error ['' @ path @ '']: '' @ m)))
         \<and> (data = JObj props \<and> map_of props ''message'' = Some (JNum k) \<and>
            \<bar>k\<bar> \<le> 9007199254740992 \<longrightarrow>
            fst (apiRequest rt accessToken meth path payload) =
              Inl (Error (''API Error ['' @ path @ '']: '' @ int_text k)))
         \<and> (data = JObj props \<and> map_of props ''message'' = Some (JBool flag) \<longrightarrow>
            fst (apiRequest rt accessToken meth path payload) =
              Inl (Error (''API Error ['' @ path @ '']: '' @
                     (if flag then ''true'' else ''false''))))
         \<and> (data = JObj props \<and> map_of props ''message'' = Some other \<and>
            (other = JArr elements \<or> other = JObj members \<or>
             (other = JNum k \<and> 9007199254740992 < \<bar>k\<bar>)) \<longrightarrow>
              (ToString rt other = Inr rendered \<longrightarrow>
                 fst (apiRequest rt accessToken meth path payload) =
                   Inl (Error (''API Error ['' @ path @ '']: '' @ rendered)))
              \<and> (ToString rt other = Inl failure \<longrightarrow>
                 fst (apiRequest rt accessToken meth path payload) = Inl failure)))
    \<and> sublist path (''Failed to parse response ['' @ path @ '']: '' @ detail)
    \<and> sublist path (''API Error ['' @ path @ '']: '' @ detail)"
proof -
  have s1: "sublist path (''Failed to parse response ['' @ path @ '']: '' @ detail)"
    by (rule sublist_appendI)
  have s2: "sublist path (''API Error ['' @ path @ '']: '' @ detail)"
    by (rule sublist_appendI)
  have p: "json_result res = Unparseable err \<and>
     (err = ThrownError cause \<or> err = ThrownOther cause) \<longrightarrow>
       fst (apiRequest rt accessToken meth path payload) =
         Inl (Error (''Failed to parse response ['' @ path @ '']: '' @ cause))"
    using assms by (auto simp: apiRequest_def)
  have a: "json_result res = Parsed data \<and> \<not> ok res \<longrightarrow>
         (data = JBool b \<or> data = JNum n \<or> data = JStr s \<or> data = JArr xs \<or>
          (data = JObj props \<and>
           (map_of props ''message'' = None \<or> map_of props ''message'' = Some JNull)) \<longrightarrow>
            fst (apiRequest rt accessToken meth path payload) =
              Inl (Error (''API Error ['' @ path @ '']: '' @ JSON_stringify rt data)))
         \<and> (data = JObj props \<and> map_of props ''message'' = Some (JStr m) \<longrightarrow>
            fst (apiRequest rt accessToken meth path payload) =
              Inl (Error (''API Error ['' @ path @ '']: '' @ m)))
         \<and> (data = JObj props \<and> map_of props ''message'' = Some (JNum k) \<and>
            \<bar>k\<bar> \<le> 9007199254740992 \<longrightarrow>
            fst (apiRequest rt accessToken meth path payload) =
              Inl (Error (''API Error ['' @ path @ '']: '' @ int_text k)))
         \<and> (data = JObj props \<and> map_of props ''message'' = Some (JBool flag) \<longrightarrow>
            fst (apiRequest rt accessToken meth path payload) =
              Inl (Error (''API Error ['' @ path @ '']: '' @
                     (if flag then ''true'' else ''false''))))
         \<and> (data = JObj props \<and> map_of props ''message'' = Some other \<and>
            (other = JArr elements \<or> other = JObj members \<or>
             (other = JNum k \<and> 9007199254740992 < \<bar>k\<bar>)) \<longrightarrow>
              (ToString rt other = Inr rendered \<longrightarrow>
                 fst (apiRequest rt accessToken meth path payload) =
                   Inl (Error (''API Error ['' @ path @ '']: '' @ rendered)))
              \<and> (ToString rt other = Inl failure \<longrightarrow>
                 fst (apiRequest rt accessToken meth path payload) = Inl failure))"
    using assms by (auto simp: apiRequest_def)
  from p a s1 s2 show ?thesis by (intro conjI)
qed

theorem api_error_classification_witness:
  "fst (apiRequest bad_request_endpoint ''tok'' ''POST'' ''/v2/users/u1/messages'' None) =
     Inl (Error ''API Error [/v2/users/u1/messages]: bad request'')
   \<and> fst (apiRequest numeric_message_endpoint ''tok'' ''GET'' ''/gateway'' None) =
       Inl (Error ''API Error [/gateway]: 404'')
   \<and> fst (apiRequest code_only_endpoint ''tok'' ''GET'' ''/gateway'' None) =
       Inl (Error (''API Error [/gateway]: {'' @ quoted ''code'' @ '':11}''))
   \<and> fst (apiRequest empty_body_endpoint ''tok'' ''GET'' ''/gateway'' None) =
       Inl (Error ''Failed to parse response [/gateway]: Unexpected end of JSON input'')"
proof -
  have f1: "fetch bad_request_endpoint
              (api_request ''tok'' ''POST'' ''/v2/users/u1/messages'' None) =
            Resolves \<lparr>ok = False,
              json_result = Parsed (JObj [(''message'', JStr ''bad request'')])\<rparr>"
    by (simp add: bad_request_endpoint_def answering_def)
  have r1: "fst (apiRequest bad_request_endpoint ''tok'' ''POST'' ''/v2/users/u1/messages'' None) =
     Inl (Error ''API Error [/v2/users/u1/messages]: bad request'')"
    using api_error_classification [OF f1,
        where data = "JObj [(''message'', JStr ''bad request'')]"
        and props = "[(''message'', JStr ''bad request'')]" and m = "''bad request''"]
    by simp
  have f2: "fetch numeric_message_endpoint (api_request ''tok'' ''GET'' ''/gateway'' None) =
            Resolves \<lparr>ok = False, json_result = Parsed (JObj [(''message'', JNum 404)])\<rparr>"
    by (simp add: numeric_message_endpoint_def answering_def)
  have r2: "fst (apiRequest numeric_message_endpoint ''tok'' ''GET'' ''/gateway'' None) =
       Inl (Error ''API Error [/gateway]: 404'')"
    using api_error_classification [OF f2,
        where data = "JObj [(''message'', JNum 404)]"
        and props = "[(''message'', JNum 404)]" and k = 404]
    by (simp add: int_text_def nat_text.simps digit_def)
  have f3: "fetch code_only_endpoint (api_request ''tok'' ''GET'' ''/gateway'' None) =
            Resolves \<lparr>ok = False, json_result = Parsed (JObj [(''code'', JNum 11)])\<rparr>"
    by (simp add: code_only_endpoint_def answering_def)
  have t3: "JSON_stringify code_only_endpoint (JObj [(''code'', JNum 11)]) =
              ''{'' @ quoted ''code'' @ '':11}''"
    by (simp add: code_only_endpoint_def answering_def int_text_def nat_text.simps digit_def)
  have "fst (apiRequest code_only_endpoint ''tok'' ''GET'' ''/gateway'' None) =
       Inl (Error (''API Error [/gateway]: '' @
              JSON_stringify code_only_endpoint (JObj [(''code'', JNum 11)])))"
    using api_error_classification [OF f3,
        where data = "JObj [(''code'', JNum 11)]" and props = "[(''code'', JNum 11)]"]
    by simp
  then have r3: "fst (apiRequest code_only_endpoint ''tok'' ''GET'' ''/gateway'' None) =
       Inl (Error (''API Error [/gateway]: {'' @ quoted ''code'' @ '':11}''))"
    by (simp only: t3) simp
  have f4: "fetch empty_body_endpoint (api_request ''tok'' ''GET'' ''/gateway'' None) =
            Resolves \<lparr>ok = True,
              json_result = Unparseable (ThrownError ''Unexpected end of JSON input'')\<rparr>"
    by (simp add: empty_body_endpoint_def answering_def)
  have r4: "fst (apiRequest empty_body_endpoint ''tok'' ''GET'' ''/gateway'' None) =
       Inl (Error ''Failed to parse response [/gateway]: Unexpected end of JSON input'')"
    using api_error_classification [OF f4,
        where err = "ThrownError ''Unexpected end of JSON input''"
        and cause = "''Unexpected end of JSON input''"]
    by simp
  from r1 r2 r3 r4 show ?thesis by (intro conjI)
qed

section \<open>Properties of the text sends\<close>




section \<open>Properties of the image upload\<close>

lemma uploadImage_trace:
  "snd (uploadImage rt accessToken imageData) =
     [api_request accessToken ''POST'' ''/v2/assets''
        (Some (payload_json (upload_payload_of imageData)))]"
proof -
  obtain r tr where a: "apiRequest rt accessToken ''POST'' ''/v2/assets''
        (Some (payload_json (upload_payload_of imageData))) = (r, tr)"
    by (cases "apiRequest rt accessToken ''POST'' ''/v2/assets''
        (Some (payload_json (upload_payload_of imageData)))")
  then have "tr = [api_request accessToken ''POST'' ''/v2/assets''
        (Some (payload_json (upload_payload_of imageData)))]"
    using apiRequest_trace [of rt accessToken "''POST''" "''/v2/assets''"
            "Some (payload_json (upload_payload_of imageData))"] by simp
  with a show ?thesis
    by (cases r) (simp_all add: uploadImage_def)
qed

lemma uploadImage_result:
  "fst (uploadImage rt accessToken imageData) =
     (case fst (apiRequest rt accessToken ''POST'' ''/v2/assets''
                  (Some (payload_json (upload_payload_of imageData)))) of
        Inl e \<Rightarrow> Inl e
      | Inr data \<Rightarrow> property data ''id'')"
  by (simp add: uploadImage_def split: prod.splits sum.splits)

lemma split_comma_nonempty: "split_comma s \<noteq> []"
  by (induction s) (auto split: list.splits)

lemma split_comma_no_comma: "CHR '','' \<notin> set s \<Longrightarrow> split_comma s = [s]"
  by (induction s) auto

lemma split_comma_at:
  "CHR '','' \<notin> set a \<Longrightarrow> split_comma (a @ CHR '','' # b) = a # split_comma b"
  by (induction a) auto

lemma hd_split_comma: "hd (split_comma s) = takeWhile (\<lambda>c. c \<noteq> CHR '','') s"
  by (induction s) (auto split: list.splits simp: split_comma_nonempty)

lemma split_comma_first:
  assumes "CHR '','' \<in> set s"
  shows "split_comma s = takeWhile (\<lambda>c. c \<noteq> CHR '','') s # split_comma (after_first_comma s)"
proof -
  let ?a = "takeWhile (\<lambda>c. c \<noteq> CHR '','') s"
  let ?d = "dropWhile (\<lambda>c. c \<noteq> CHR '','') s"
  from assms have "?d \<noteq> []" by (simp add: dropWhile_eq_Nil_conv)
  moreover from this have "hd ?d = CHR '',''" using hd_dropWhile [of "\<lambda>c. c \<noteq> CHR '',''" s] by simp
  ultimately have d: "?d = CHR '','' # after_first_comma s"
    by (cases ?d) (simp_all add: after_first_comma_def)
  have "CHR '','' \<notin> set ?a"
    by (auto dest: set_takeWhileD)
  then have "split_comma (?a @ CHR '','' # after_first_comma s) = ?a # split_comma (after_first_comma s)"
    by (rule split_comma_at)
  moreover have "s = ?a @ ?d" by simp
  ultimately show ?thesis using d by metis
qed

lemma second_piece:
  "js_index (split_comma s) (Suc 0) =
     (if CHR '','' \<in> set s
      then Some (takeWhile (\<lambda>c. c \<noteq> CHR '','') (after_first_comma s))
      else None)"
proof (cases "CHR '','' \<in> set s")
  case False
  then show ?thesis by (simp add: split_comma_no_comma js_index_def)
next
  case True
  obtain p ps where p: "split_comma (after_first_comma s) = p # ps"
    using split_comma_nonempty [of "after_first_comma s"] by (cases "split_comma (after_first_comma s)") auto
  then have "p = takeWhile (\<lambda>c. c \<noteq> CHR '','') (after_first_comma s)"
    using hd_split_comma [of "after_first_comma s"] by simp
  with True p show ?thesis
    by (simp add: split_comma_first js_index_def)
qed

lemma data_not_http: "prefix ''data:'' s \<Longrightarrow> \<not> prefix ''http'' s"
  by (auto simp: prefix_def)

text \<open>
  Claim C9 as stated fails in two places. For a data URI with a second comma the code
  sends the piece between the first comma and the second, not the whole remainder after
  the first. And for the parsed body \<open>null\<close> with a success status the read \<open>data.id\<close>
  throws the runtime's \<open>TypeError\<close>: no identifier is returned.
\<close>

theorem second_comma_truncates_counterexample:
  "prefix ''data:'' ''data:text/plain,a,b''
   \<and> after_first_comma ''data:text/plain,a,b'' = ''a,b''
   \<and> map body (snd (uploadImage asset_endpoint ''tok'' ''data:text/plain,a,b'')) =
       [Some (JObj [(''file_data'', JStr ''a'')])]
   \<and> fst (uploadImage null_endpoint ''tok'' ''AAAA'') = Inl (TypeError ''id'')"
  by (simp add: after_first_comma_def uploadImage_trace uploadImage_result upload_payload_of_def
        payload_json_def js_index_def api_request_object apiRequest_def null_endpoint_def
        answering_def)

text \<open>
  Claim C9, amended. \<open>uploadImage\<close> classifies its input by prefix and makes one POST to
  \<open>/v2/assets\<close>.
  \<^item> For an input that starts with \<open>http\<close> the body of the request is \<open>{url: input}\<close>.
  \<^item> For an input that starts with \<open>data:\<close> and contains exactly one comma, the body is
    \<open>{file_data: rest}\<close>, where \<open>rest\<close> is the input with everything up to and including
    the comma stripped.
  \<^item> For any other input the body is \<open>{file_data: input}\<close>, the input unmodified.
  \<^item> When the request is answered with a success status and a parsed body that is not
    \<open>null\<close>, the call returns the \<open>id\<close> property of the body, whatever it holds, and
    \<open>undefined\<close> when the body has none.
\<close>

theorem upload_payload_by_prefix:
  "(prefix ''http'' imageData \<longrightarrow>
      snd (uploadImage rt accessToken imageData) =
        [\<lparr>target = API_BASE @ ''/v2/assets'', http_method = ''POST'',
          headers = [(''Authorization'', ''QQBot '' @ accessToken),
                     (''Content-Type'', ''application/json'')],
          body = Some (JObj [(''url'', JStr imageData)])\<rparr>])
   \<and> (prefix ''data:'' imageData \<and> imageData = header @ CHR '','' # rest \<and>
       CHR '','' \<notin> set header \<and> CHR '','' \<notin> set rest \<longrightarrow>
      snd (uploadImage rt accessToken imageData) =
        [\<lparr>target = API_BASE @ ''/v2/assets'', http_method = ''POST'',
          headers = [(''Authorization'', ''QQBot '' @ accessToken),
                     (''Content-Type'', ''application/json'')],
          body = Some (JObj [(''file_data'', JStr rest)])\<rparr>])
   \<and> (\<not> prefix ''http'' imageData \<and> \<not> prefix ''data:'' imageData \<longrightarrow>
      snd (uploadImage rt accessToken imageData) =
        [\<lparr>target = API_BASE @ ''/v2/assets'', http_method = ''POST'',
          headers = [(''Authorization'', ''QQBot '' @ accessToken),
                     (''Content-Type'', ''application/json'')],
          body = Some (JObj [(''file_data'', JStr imageData)])\<rparr>])
   \<and> (snd (uploadImage rt accessToken imageData) = [req] \<and>
       fetch rt req = Resolves res \<and> ok res \<and> json_result res = Parsed data \<longrightarrow>
        (data = JObj props \<longrightarrow>
           fst (uploadImage rt accessToken imageData) = Inr (map_of props ''id''))
        \<and> (data = JBool b \<or> data = JNum n \<or> data = JStr s \<or> data = JArr xs \<longrightarrow>
           fst (uploadImage rt accessToken imageData) = Inr None))"
proof -
  have a: "prefix ''http'' imageData \<longrightarrow>
      snd (uploadImage rt accessToken imageData) =
        [\<lparr>target = API_BASE @ ''/v2/assets'', http_method = ''POST'',
          headers = [(''Authorization'', ''QQBot '' @ accessToken),
                     (''Content-Type'', ''application/json'')],
          body = Some (JObj [(''url'', JStr imageData)])\<rparr>]"
    by (simp add: uploadImage_trace upload_payload_of_def payload_json_def api_request_object)
  have pieces: "split_comma (header @ CHR '','' # rest) = [header, rest]"
    if "CHR '','' \<notin> set header" "CHR '','' \<notin> set rest"
    using that by (simp add: split_comma_at split_comma_no_comma)
  have b: "prefix ''data:'' imageData \<and> imageData = header @ CHR '','' # rest \<and>
       CHR '','' \<notin> set header \<and> CHR '','' \<notin> set rest \<longrightarrow>
      snd (uploadImage rt accessToken imageData) =
        [\<lparr>target = API_BASE @ ''/v2/assets'', http_method = ''POST'',
          headers = [(''Authorization'', ''QQBot '' @ accessToken),
                     (''Content-Type'', ''application/json'')],
          body = Some (JObj [(''file_data'', JStr rest)])\<rparr>]"
  proof (intro impI, elim conjE)
    assume d: "prefix ''data:'' imageData" and i: "imageData = header @ CHR '','' # rest"
      and h: "CHR '','' \<notin> set header" and r: "CHR '','' \<notin> set rest"
    have "js_index (split_comma imageData) 1 = Some rest"
      using pieces [OF h r] i by (simp add: js_index_def)
    then have "upload_payload_of imageData = \<lparr>url = None, file_data = Some rest\<rparr>"
      using d by (simp add: upload_payload_of_def data_not_http)
    then show "snd (uploadImage rt accessToken imageData) =
        [\<lparr>target = API_BASE @ ''/v2/assets'', http_method = ''POST'',
          headers = [(''Authorization'', ''QQBot '' @ accessToken),
                     (''Content-Type'', ''application/json'')],
          body = Some (JObj [(''file_data'', JStr rest)])\<rparr>]"
      by (simp add: uploadImage_trace payload_json_def api_request_object)
  qed
  have c: "\<not> prefix ''http'' imageData \<and> \<not> prefix ''data:'' imageData \<longrightarrow>
      snd (uploadImage rt accessToken imageData) =
        [\<lparr>target = API_BASE @ ''/v2/assets'', http_method = ''POST'',
          headers = [(''Authorization'', ''QQBot '' @ accessToken),
                     (''Content-Type'', ''application/json'')],
          body = Some (JObj [(''file_data'', JStr imageData)])\<rparr>]"
    by (simp add: uploadImage_trace upload_payload_of_def payload_json_def api_request_object)
  have d: "snd (uploadImage rt accessToken imageData) = [req] \<and>
       fetch rt req = Resolves res \<and> ok res \<and> json_result res = Parsed data \<longrightarrow>
        (data = JObj props \<longrightarrow>
           fst (uploadImage rt accessToken imageData) = Inr (map_of props ''id''))
        \<and> (data = JBool b \<or> data = JNum n \<or> data = JStr s \<or> data = JArr xs \<longrightarrow>
           fst (uploadImage rt accessToken imageData) = Inr None)"
    by (auto simp: uploadImage_trace uploadImage_result apiRequest_def)
  from a b c d show ?thesis by (intro conjI)
qed

theorem upload_payload_by_prefix_witness:
  "prefix ''http'' ''https://x/y.png''
   \<and> snd (uploadImage asset_endpoint ''tok'' ''https://x/y.png'') =
       [\<lparr>target = ''https://api.sgroup.qq.com/v2/assets'', http_method = ''POST'',
         headers = [(''Authorization'', ''QQBot tok''), (''Content-Type'', ''application/json'')],
         body = Some (JObj [(''url'', JStr ''https://x/y.png'')])\<rparr>]
   \<and> prefix ''data:'' ''data:image/png;base64,AAAA''
   \<and> map body (snd (uploadImage asset_endpoint ''tok'' ''data:image/png;base64,AAAA'')) =
       [Some (JObj [(''file_data'', JStr ''AAAA'')])]
   \<and> \<not> prefix ''http'' ''AAAA'' \<and> \<not> prefix ''data:'' ''AAAA''
   \<and> map body (snd (uploadImage asset_endpoint ''tok'' ''AAAA'')) =
       [Some (JObj [(''file_data'', JStr ''AAAA'')])]
   \<and> fst (uploadImage asset_endpoint ''tok'' ''AAAA'') = Inr (Some (JStr ''asset-1''))
   \<and> fst (uploadImage numeric_asset_endpoint ''tok'' ''AAAA'') = Inr (Some (JNum 7))
   \<and> fst (uploadImage token_endpoint_T2 ''tok'' ''AAAA'') = Inr None"
proof -
  have h1: "prefix ''http'' ''https://x/y.png''" by simp
  have r1: "snd (uploadImage asset_endpoint ''tok'' ''https://x/y.png'') =
       [\<lparr>target = ''https://api.sgroup.qq.com/v2/assets'', http_method = ''POST'',
         headers = [(''Authorization'', ''QQBot tok''), (''Content-Type'', ''application/json'')],
         body = Some (JObj [(''url'', JStr ''https://x/y.png'')])\<rparr>]"
    using upload_payload_by_prefix [where imageData = "''https://x/y.png''"
        and rt = asset_endpoint and accessToken = "''tok''"] h1
    by (simp add: API_BASE_def)
  have h2: "prefix ''data:'' ''data:image/png;base64,AAAA''" by simp
  have r2: "map body (snd (uploadImage asset_endpoint ''tok'' ''data:image/png;base64,AAAA'')) =
       [Some (JObj [(''file_data'', JStr ''AAAA'')])]"
    using upload_payload_by_prefix [where imageData = "''data:image/png;base64,AAAA''"
        and header = "''data:image/png;base64''" and rest = "''AAAA''"
        and rt = asset_endpoint and accessToken = "''tok''"] h2
    by simp
  have h3: "\<not> prefix ''http'' ''AAAA'' \<and> \<not> prefix ''data:'' ''AAAA''" by simp
  have t3: "snd (uploadImage rt ''tok'' ''AAAA'') =
       [\<lparr>target = API_BASE @ ''/v2/assets'', http_method = ''POST'',
         headers = [(''Authorization'', ''QQBot '' @ ''tok''),
                    (''Content-Type'', ''application/json'')],
         body = Some (JObj [(''file_data'', JStr ''AAAA'')])\<rparr>]" for rt
    using upload_payload_by_prefix [where imageData = "''AAAA''"
        and rt = rt and accessToken = "''tok''"] h3
    by simp
  then have r3: "map body (snd (uploadImage asset_endpoint ''tok'' ''AAAA'')) =
       [Some (JObj [(''file_data'', JStr ''AAAA'')])]"
    by simp
  have r4: "fst (uploadImage asset_endpoint ''tok'' ''AAAA'') = Inr (Some (JStr ''asset-1''))"
    using upload_payload_by_prefix [where imageData = "''AAAA''"
        and rt = asset_endpoint and accessToken = "''tok''"
        and req = "\<lparr>target = API_BASE @ ''/v2/assets'', http_method = ''POST'',
         headers = [(''Authorization'', ''QQBot '' @ ''tok''),
                    (''Content-Type'', ''application/json'')],
         body = Some (JObj [(''file_data'', JStr ''AAAA'')])\<rparr>"
        and res = "\<lparr>ok = True, json_result = Parsed (JObj [(''id'', JStr ''asset-1'')])\<rparr>"
        and data = "JObj [(''id'', JStr ''asset-1'')]" and props = "[(''id'', JStr ''asset-1'')]"]
      t3 [of asset_endpoint]
    by (simp add: asset_endpoint_def answering_def)
  have r5: "fst (uploadImage numeric_asset_endpoint ''tok'' ''AAAA'') = Inr (Some (JNum 7))"
    using upload_payload_by_prefix [where imageData = "''AAAA''"
        and rt = numeric_asset_endpoint and accessToken = "''tok''"
        and req = "\<lparr>target = API_BASE @ ''/v2/assets'', http_method = ''POST'',
         headers = [(''Authorization'', ''QQBot '' @ ''tok''),
                    (''Content-Type'', ''application/json'')],
         body = Some (JObj [(''file_data'', JStr ''AAAA'')])\<rparr>"
        and res = "\<lparr>ok = True, json_result = Parsed (JObj [(''id'', JNum 7)])\<rparr>"
        and data = "JObj [(''id'', JNum 7)]" and props = "[(''id'', JNum 7)]"]
      t3 [of numeric_asset_endpoint]
    by (simp add: numeric_asset_endpoint_def answering_def)
  have r6: "fst (uploadImage token_endpoint_T2 ''tok'' ''AAAA'') = Inr None"
    using upload_payload_by_prefix [where imageData = "''AAAA''"
        and rt = token_endpoint_T2 and accessToken = "''tok''"
        and req = "\<lparr>target = API_BASE @ ''/v2/assets'', http_method = ''POST'',
         headers = [(''Authorization'', ''QQBot '' @ ''tok''),
                    (''Content-Type'', ''application/json'')],
         body = Some (JObj [(''file_data'', JStr ''AAAA'')])\<rparr>"
        and res = "\<lparr>ok = True, json_result = Parsed (JObj [(''access_token'', JStr ''T2'')])\<rparr>"
        and data = "JObj [(''access_token'', JStr ''T2'')]"
        and props = "[(''access_token'', JStr ''T2'')]"]
      t3 [of token_endpoint_T2]
    by (simp add: token_endpoint_T2_def answering_def)
  from h1 r1 h2 r2 h3 r3 r4 r5 r6 show ?thesis by (intro conjI) simp_all
qed

text \<open>
  Claim C10. For every input that starts with \<open>data:\<close> and contains no comma, the split
  has no second element, the \<open>file_data\<close> of the payload is undefined, and the body of
  the upload request is the empty object. The call does not fail before the request: it
  makes the request, and fails or returns as \<open>apiRequest\<close> and the read of \<open>id\<close> on
  its result do.
\<close>

theorem data_uri_without_comma:
  assumes "prefix ''data:'' imageData" and "CHR '','' \<notin> set imageData"
  shows "js_index (split_comma imageData) 1 = None
       \<and> upload_payload_of imageData = \<lparr>url = None, file_data = None\<rparr>
       \<and> snd (uploadImage rt accessToken imageData) =
           [\<lparr>target = API_BASE @ ''/v2/assets'', http_method = ''POST'',
             headers = [(''Authorization'', ''QQBot '' @ accessToken),
                        (''Content-Type'', ''application/json'')],
             body = Some (JObj [])\<rparr>]
       \<and> fst (uploadImage rt accessToken imageData) =
           (case fst (apiRequest rt accessToken ''POST'' ''/v2/assets'' (Some (JObj []))) of
              Inl e \<Rightarrow> Inl e
            | Inr data \<Rightarrow> property data ''id'')"
proof -
  have i: "js_index (split_comma imageData) 1 = None"
    using assms(2) by (simp add: second_piece)
  have p: "upload_payload_of imageData = \<lparr>url = None, file_data = None\<rparr>"
    using assms(1) i by (simp add: upload_payload_of_def data_not_http)
  then have j: "payload_json (upload_payload_of imageData) = JObj []"
    by (simp add: payload_json_def)
  have t: "snd (uploadImage rt accessToken imageData) =
             [api_request accessToken ''POST'' ''/v2/assets'' (Some (JObj []))]"
    by (simp add: uploadImage_trace j)
  have r: "fst (uploadImage rt accessToken imageData) =
           (case fst (apiRequest rt accessToken ''POST'' ''/v2/assets'' (Some (JObj []))) of
              Inl e \<Rightarrow> Inl e
            | Inr data \<Rightarrow> property data ''id'')"
    by (simp add: uploadImage_result j)
  from i p t r show ?thesis
    by (simp add: api_request_object)
qed

theorem data_uri_without_comma_witness:
  "prefix ''data:'' ''data:image/png;base64'' \<and> CHR '','' \<notin> set ''data:image/png;base64''
   \<and> uploadImage asset_endpoint ''tok'' ''data:image/png;base64'' =
       (Inr (Some (JStr ''asset-1'')),
        [\<lparr>target = ''https://api.sgroup.qq.com/v2/assets'', http_method = ''POST'',
          headers = [(''Authorization'', ''QQBot tok''), (''Content-Type'', ''application/json'')],
          body = Some (JObj [])\<rparr>])"
proof -
  have h1: "prefix ''data:'' ''data:image/png;base64''" by simp
  have h2: "CHR '','' \<notin> set ''data:image/png;base64''" by simp
  have a: "fst (apiRequest asset_endpoint ''tok'' ''POST'' ''/v2/assets'' (Some (JObj []))) =
             Inr (JObj [(''id'', JStr ''asset-1'')])"
    by (simp add: apiRequest_def asset_endpoint_def answering_def)
  from data_uri_without_comma [OF h1 h2, of asset_endpoint "''tok''"] a
  have "uploadImage asset_endpoint ''tok'' ''data:image/png;base64'' =
       (Inr (Some (JStr ''asset-1'')),
        [\<lparr>target = API_BASE @ ''/v2/assets'', http_method = ''POST'',
          headers = [(''Authorization'', ''QQBot '' @ ''tok''), (''Content-Type'', ''application/json'')],
          body = Some (JObj [])\<rparr>])"
    by (simp add: prod_eq_iff)
  with h1 h2 show ?thesis by (simp add: API_BASE_def)
qed

end
